theory Spec2Isabelle
  imports Complex_Main "HOL-Library.AList" "HOL-Library.Product_Lexorder"
begin

section \<open>Python strings\<close>

text \<open>
  A Python \<open>str\<close> is a sequence of Unicode code points, and every operation the predictor
  applies to a message (\<open>in\<close>, \<open>re.search\<close>, \<open>re.findall\<close>, \<open>replace\<close>, \<open>strip\<close>) counts
  code points. A message is therefore a list of code points, each a natural number. The
  card suits of the source are two code points each: the suit symbol followed by the
  variation selector U+FE0F.

  File names and dictionary keys that the source writes as ASCII literals are HOL strings;
  \<open>ascii\<close> turns such a literal into the Python string of the same characters.
\<close>

type_synonym codepoint = nat
type_synonym pystr = "codepoint list"

definition ascii :: "string \<Rightarrow> pystr" where
  "ascii s = map of_char s"

definition SPADE :: pystr where "SPADE = [0x2660, 0xFE0F]"
definition HEART :: pystr where "HEART = [0x2665, 0xFE0F]"
definition DIAMOND :: pystr where "DIAMOND = [0x2666, 0xFE0F]"
definition CLUB :: pystr where "CLUB = [0x2663, 0xFE0F]"
definition RED_HEART :: pystr where "RED_HEART = [0x2764, 0xFE0F]"
definition CLOCK1 :: codepoint where "CLOCK1 = 0x1F550"
definition ALARM :: codepoint where "ALARM = 0x23F0"
definition CHECK :: codepoint where "CHECK = 0x2705"
definition BEGINNER :: codepoint where "BEGINNER = 0x1F530"
definition BLUE :: codepoint where "BLUE = 0x1F535"

text \<open>
  \<open>\d\<close> in a \<open>str\<close> pattern matches every Unicode decimal digit (category Nd), and
  \<open>int\<close> reads each of them by its decimal value. The decimal digits come in runs of ten
  code points, from the digit zero of a script to its digit nine; \<open>decimal_zeros\<close>
  lists the zeros (Unicode 14: 66 runs, the ASCII digits first). A run of decimal digits
  always converts (the interpreter's limit of 4300 digits is beyond the length of a
  message), so the \<open>except ValueError\<close> branches of the extractors have no input that
  reaches them.
\<close>

definition decimal_zeros :: "codepoint list" where
  "decimal_zeros =
     [0x30, 0x660, 0x6F0, 0x7C0, 0x966, 0x9E6, 0xA66, 0xAE6, 0xB66, 0xBE6, 0xC66, 0xCE6,
      0xD66, 0xDE6, 0xE50, 0xED0, 0xF20, 0x1040, 0x1090, 0x17E0, 0x1810, 0x1946, 0x19D0,
      0x1A80, 0x1A90, 0x1B50, 0x1BB0, 0x1C40, 0x1C50, 0xA620, 0xA8D0, 0xA900, 0xA9D0,
      0xA9F0, 0xAA50, 0xABF0, 0xFF10, 0x104A0, 0x10D30, 0x11066, 0x110F0, 0x11136,
      0x111D0, 0x112F0, 0x11450, 0x114D0, 0x11650, 0x116C0, 0x11730, 0x118E0, 0x11950,
      0x11C50, 0x11D50, 0x11DA0, 0x16A60, 0x16AC0, 0x16B50, 0x1D7CE, 0x1D7D8, 0x1D7E2,
      0x1D7EC, 0x1D7F6, 0x1E140, 0x1E2F0, 0x1E950, 0x1FBF0]"

definition digit_value :: "codepoint \<Rightarrow> nat option" where
  "digit_value c =
     (case find (\<lambda>z. z \<le> c \<and> c < z + 10) decimal_zeros of
        Some z \<Rightarrow> Some (c - z)
      | None \<Rightarrow> None)"

definition is_digit :: "codepoint \<Rightarrow> bool" where
  "is_digit c \<longleftrightarrow> digit_value c \<noteq> None"

definition int_of_digits :: "pystr \<Rightarrow> int" where
  "int_of_digits ds =
     foldl (\<lambda>a c. 10 * a + int (case digit_value c of Some v \<Rightarrow> v | None \<Rightarrow> 0)) 0 ds"

text \<open>The characters \<open>str.strip()\<close> removes: those for which \<open>str.isspace\<close> holds.\<close>

definition py_isspace :: "codepoint \<Rightarrow> bool" where
  "py_isspace c \<longleftrightarrow>
     (9 \<le> c \<and> c \<le> 13) \<or> (28 \<le> c \<and> c \<le> 32) \<or> c = 0x85 \<or> c = 0xA0 \<or> c = 0x1680 \<or>
     (0x2000 \<le> c \<and> c \<le> 0x200A) \<or> c = 0x2028 \<or> c = 0x2029 \<or> c = 0x202F \<or>
     c = 0x205F \<or> c = 0x3000"

definition py_strip :: "pystr \<Rightarrow> pystr" where
  "py_strip s = rev (dropWhile py_isspace (rev (dropWhile py_isspace s)))"

text \<open>
  \<open>re.search\<close>: the leftmost position at which the pattern matches. The pattern is given
  as a matcher anchored at the head of its argument.
\<close>

fun re_search :: "(pystr \<Rightarrow> 'a option) \<Rightarrow> pystr \<Rightarrow> 'a option" where
  "re_search m [] = m []"
| "re_search m (c # cs) = (case m (c # cs) of Some r \<Rightarrow> Some r | None \<Rightarrow> re_search m cs)"

section \<open>Extraction (card_predictor.py, extract_game_number to check_value_K_in_first_parentheses)\<close>

text \<open>
  \<open>#N(\d+)\.\<close> with \<open>re.IGNORECASE\<close>, anchored. The greedy \<open>\d+\<close> takes the whole run of
  digits; giving digits back cannot help, since the next pattern character is not a digit.
  The result is group 1.
\<close>

fun match_hash_n :: "pystr \<Rightarrow> pystr option" where
  "match_hash_n (h # n # rest) =
     (if h = 35 \<and> (n = 78 \<or> n = 110) then
        (let ds = takeWhile is_digit rest; after = dropWhile is_digit rest
         in if ds \<noteq> [] \<and> (case after of [] \<Rightarrow> False | c # _ \<Rightarrow> c = 46) then Some ds else None)
      else None)"
| "match_hash_n _ = None"

text \<open>The pattern of a prediction message: a blue circle, digits, a blue circle.\<close>

fun match_blue :: "pystr \<Rightarrow> pystr option" where
  "match_blue (b # rest) =
     (if b = BLUE then
        (let ds = takeWhile is_digit rest; after = dropWhile is_digit rest
         in if ds \<noteq> [] \<and> (case after of [] \<Rightarrow> False | c # _ \<Rightarrow> c = BLUE) then Some ds else None)
      else None)"
| "match_blue _ = None"

definition extract_game_number :: "pystr \<Rightarrow> int option" where
  "extract_game_number message =
     (case re_search match_hash_n message of
        Some ds \<Rightarrow> Some (int_of_digits ds)
      | None \<Rightarrow>
         (case re_search match_blue message of
            Some ds \<Rightarrow> Some (int_of_digits ds)
          | None \<Rightarrow> None))"

text \<open>\<open>#T(\d+)\<close> with \<open>re.IGNORECASE\<close>, anchored.\<close>

fun match_hash_t :: "pystr \<Rightarrow> pystr option" where
  "match_hash_t (h # t # rest) =
     (if h = 35 \<and> (t = 84 \<or> t = 116) then
        (let ds = takeWhile is_digit rest in if ds \<noteq> [] then Some ds else None)
      else None)"
| "match_hash_t _ = None"

definition extract_total_score :: "pystr \<Rightarrow> int option" where
  "extract_total_score message =
     (case re_search match_hash_t message of
        Some ds \<Rightarrow> Some (int_of_digits ds)
      | None \<Rightarrow> None)"

text \<open>
  \<open>\(([^)]*)\)\<close>, anchored: an opening parenthesis, everything up to the next closing
  parenthesis, which has to exist. The result is group 1.
\<close>

fun match_parens :: "pystr \<Rightarrow> pystr option" where
  "match_parens (p # rest) =
     (if p = 40 \<and> dropWhile (\<lambda>c. c \<noteq> 41) rest \<noteq> [] then Some (takeWhile (\<lambda>c. c \<noteq> 41) rest)
      else None)"
| "match_parens _ = None"

definition extract_first_parentheses_content :: "pystr \<Rightarrow> pystr option" where
  "extract_first_parentheses_content message =
     (case re_search match_parens message of
        Some g \<Rightarrow> Some (py_strip g)
      | None \<Rightarrow> None)"

text \<open>\<open>content.replace(RED_HEART, HEART)\<close>: both are a symbol followed by U+FE0F.\<close>

fun replace_heart :: "pystr \<Rightarrow> pystr" where
  "replace_heart (a # b # cs) =
     (if a = 0x2764 \<and> b = 0xFE0F then 0x2665 # 0xFE0F # replace_heart cs
      else a # replace_heart (b # cs))"
| "replace_heart cs = cs"

text \<open>
  Under \<open>re.IGNORECASE\<close> the class \<open>[AKQJ]\<close> matches the eight ASCII letters and the Kelvin
  sign U+212A, whose lower case is \<open>k\<close>. \<open>str.upper\<close> maps the four small letters to the
  capitals and leaves the Kelvin sign and the digits as they are.
\<close>

definition is_rank_letter :: "codepoint \<Rightarrow> bool" where
  "is_rank_letter c \<longleftrightarrow> c \<in> {65, 75, 81, 74, 97, 107, 113, 106, 0x212A}"

definition py_upper :: "pystr \<Rightarrow> pystr" where
  "py_upper s = map (\<lambda>c. if 97 \<le> c \<and> c \<le> 122 then c - 32 else c) s"

definition match_suit :: "pystr \<Rightarrow> pystr option" where
  "match_suit s =
     (case s of
        a # b # _ \<Rightarrow>
          if b = 0xFE0F \<and> (a = 0x2660 \<or> a = 0x2665 \<or> a = 0x2666 \<or> a = 0x2663) then Some [a, b]
          else None
      | _ \<Rightarrow> None)"

text \<open>
  \<open>(\d+|[AKQJ])(suit)\<close>, anchored: the two groups and the length of the match. When the
  text starts with a digit the first alternative takes the whole run of digits and the
  second alternative cannot match.
\<close>

definition match_card :: "pystr \<Rightarrow> ((pystr \<times> pystr) \<times> nat) option" where
  "match_card s =
     (case s of
        [] \<Rightarrow> None
      | c # cs \<Rightarrow>
          if is_digit c then
            (let ds = takeWhile is_digit s in
             case match_suit (dropWhile is_digit s) of
               Some su \<Rightarrow> Some ((ds, su), length ds + 2)
             | None \<Rightarrow> None)
          else if is_rank_letter c then
            (case match_suit cs of
               Some su \<Rightarrow> Some (([c], su), 3)
             | None \<Rightarrow> None)
          else None)"

text \<open>
  \<open>re.findall\<close>: the matches from left to right, none overlapping. The counter is the
  number of code points still covered by the last match.
\<close>

fun findall_cards :: "nat \<Rightarrow> pystr \<Rightarrow> (pystr \<times> pystr) list" where
  "findall_cards _ [] = []"
| "findall_cards (Suc k) (c # cs) = findall_cards k cs"
| "findall_cards 0 (c # cs) =
     (case match_card (c # cs) of
        Some (found, len) \<Rightarrow> found # findall_cards (len - 1) cs
      | None \<Rightarrow> findall_cards 0 cs)"

definition extract_card_details :: "pystr \<Rightarrow> (pystr \<times> pystr) list" where
  "extract_card_details content =
     map (\<lambda>(v, costume). (py_upper v, costume)) (findall_cards 0 (replace_heart content))"

definition get_first_two_cards :: "pystr \<Rightarrow> pystr list" where
  "get_first_two_cards content = map (\<lambda>(v, c). v @ c) (take 2 (extract_card_details content))"

definition check_value_K_in_first_parentheses :: "pystr \<Rightarrow> (pystr \<times> pystr) option" where
  "check_value_K_in_first_parentheses message =
     (case extract_first_parentheses_content message of
        None \<Rightarrow> None
      | Some content \<Rightarrow>
          if content = [] then None
          else find (\<lambda>(v, costume). v = [75]) (extract_card_details content))"

definition has_pending_indicators :: "pystr \<Rightarrow> bool" where
  "has_pending_indicators message \<longleftrightarrow> CLOCK1 \<in> set message \<or> ALARM \<in> set message"

definition has_completion_indicators :: "pystr \<Rightarrow> bool" where
  "has_completion_indicators message \<longleftrightarrow> CHECK \<in> set message \<or> BEGINNER \<in> set message"


section \<open>Python values and JSON files\<close>

text \<open>
  \<open>_load_data\<close> and \<open>_save_data\<close> are untyped: they take and return \<open>Any\<close> and decide by
  \<open>isinstance\<close> and by file name. The values they handle are modelled by one datatype.
  Dictionaries are association lists in insertion order, keyed by strings or integers (the
  two key types the program uses); a set is the list of its elements, in the order in
  which the set is iterated; a float is the
  rational number it denotes (the infinities and NaN are left out).
\<close>

datatype pykey = KStr pystr | KInt int

datatype pyval =
    PNone
  | PBool bool
  | PInt int
  | PFloat rat
  | PStr pystr
  | PList "pyval list"
  | PDict "(pykey \<times> pyval) list"
  | PSet "pyval list"

datatype exn =
  FileNotFoundError | JSONDecodeError | OSError | TypeError | AttributeError | ValueError | IndexError

text \<open>\<open>str(n)\<close> for an integer: its decimal digits, with a minus sign when negative.\<close>

fun digits_of_nat :: "nat \<Rightarrow> pystr" where
  "digits_of_nat n = (if n < 10 then [48 + n] else digits_of_nat (n div 10) @ [48 + n mod 10])"

declare digits_of_nat.simps [simp del]

definition py_str_int :: "int \<Rightarrow> pystr" where
  "py_str_int k = (if k < 0 then 45 # digits_of_nat (nat (- k)) else digits_of_nat (nat k))"

text \<open>
  \<open>int(s)\<close> for a string: surrounding whitespace is dropped, a sign may come first, and
  the digits (decimal digits, as above) may be grouped by single underscores. Anything
  else is a \<open>ValueError\<close>, here \<open>None\<close>.
\<close>

fun valid_int_body :: "pystr \<Rightarrow> bool" where
  "valid_int_body [] = False"
| "valid_int_body [c] = is_digit c"
| "valid_int_body (c # d # cs) =
     (is_digit c \<and>
      (if d = 95 then (case cs of [] \<Rightarrow> False | e # _ \<Rightarrow> is_digit e) \<and> valid_int_body cs
       else valid_int_body (d # cs)))"

definition py_int_of_str :: "pystr \<Rightarrow> int option" where
  "py_int_of_str s =
     (let t = py_strip s;
          body = (case t of [] \<Rightarrow> [] | c # r \<Rightarrow> if c = 45 \<or> c = 43 then r else t);
          sign = (case t of [] \<Rightarrow> 1 | c # r \<Rightarrow> if c = 45 then - 1 else 1)
      in if valid_int_body body then Some (sign * int_of_digits (filter (\<lambda>c. c \<noteq> 95) body))
         else None)"

text \<open>
  What \<open>json.load\<close> reads back from the text \<open>json.dump\<close> wrote. \<open>json.dump\<close> raises
  \<open>TypeError\<close> on a set; it writes every dictionary key as a string, so an integer key
  comes back as the string of its digits; everything else comes back as it was.
\<close>

fun json_ok :: "pyval \<Rightarrow> bool" where
  "json_ok (PList xs) = list_all json_ok xs"
| "json_ok (PDict kvs) = list_all json_ok (map snd kvs)"
| "json_ok (PSet xs) = False"
| "json_ok v = True"

definition json_key :: "pykey \<Rightarrow> pykey" where
  "json_key k = (case k of KStr s \<Rightarrow> KStr s | KInt n \<Rightarrow> KStr (py_str_int n))"

text \<open>A dictionary built from pairs in order: a later pair replaces the value of an equal key.\<close>

definition dict_of_pairs :: "('k \<times> 'v) list \<Rightarrow> ('k \<times> 'v) list" where
  "dict_of_pairs ps = fold (\<lambda>p d. AList.update (fst p) (snd p) d) ps []"

fun json_norm :: "pyval \<Rightarrow> pyval" where
  "json_norm (PList xs) = PList (map json_norm xs)"
| "json_norm (PDict kvs) =
     PDict (dict_of_pairs (map (\<lambda>p. (json_key (fst p), json_norm (snd p))) kvs))"
| "json_norm v = v"

text \<open>
  A file, by what \<open>open\<close> and \<open>json.load\<close> do with it: \<open>Missing\<close> raises
  \<open>FileNotFoundError\<close>; \<open>Garbage\<close> (an empty file, or text that is not JSON) raises
  \<open>JSONDecodeError\<close>; \<open>Unreadable\<close> raises any other exception (no permission, bytes
  that do not decode); \<open>Doc v\<close> parses to \<open>v\<close>. Writing a file either succeeds or
  raises and leaves some content behind.
\<close>

datatype stored_file = Missing | Garbage | Unreadable | Doc pyval

datatype write_outcome = Succeeds | FailsLeaving stored_file

record disk =
  stored :: "string \<Rightarrow> stored_file"
  on_write :: "string \<Rightarrow> write_outcome"

datatype log_level = WARNING | ERROR

definition read_json :: "disk \<Rightarrow> string \<Rightarrow> exn + pyval" where
  "read_json d filename =
     (case stored d filename of
        Missing \<Rightarrow> Inl FileNotFoundError
      | Garbage \<Rightarrow> Inl JSONDecodeError
      | Unreadable \<Rightarrow> Inl OSError
      | Doc v \<Rightarrow> Inr v)"

text \<open>
  \<open>with open(filename, 'w') as f: json.dump(data_to_save, f, indent=4)\<close>. When
  \<open>json.dump\<close> raises, the file has been truncated and holds at most a fragment.
\<close>

definition write_json :: "disk \<Rightarrow> string \<Rightarrow> pyval \<Rightarrow> (exn \<times> disk) + disk" where
  "write_json d filename v =
     (case on_write d filename of
        FailsLeaving f \<Rightarrow> Inl (OSError, d\<lparr>stored := (stored d)(filename := f)\<rparr>)
      | Succeeds \<Rightarrow>
          if json_ok v then Inr (d\<lparr>stored := (stored d)(filename := Doc (json_norm v))\<rparr>)
          else Inl (TypeError, d\<lparr>stored := (stored d)(filename := Garbage)\<rparr>))"

text \<open>
  \<open>set(data)\<close>. Numbers are equal across \<open>bool\<close>, \<open>int\<close> and \<open>float\<close> when their
  values are; the set keeps the first of equal elements. Lists, dictionaries and sets
  cannot be elements.
\<close>

fun numval :: "pyval \<Rightarrow> rat option" where
  "numval (PBool b) = Some (if b then 1 else 0)"
| "numval (PInt n) = Some (of_int n)"
| "numval (PFloat x) = Some x"
| "numval v = None"

definition py_eq :: "pyval \<Rightarrow> pyval \<Rightarrow> bool" where
  "py_eq a b =
     (case numval a of
        Some x \<Rightarrow> (case numval b of Some y \<Rightarrow> x = y | None \<Rightarrow> False)
      | None \<Rightarrow> (case numval b of Some y \<Rightarrow> False | None \<Rightarrow> a = b))"

fun hashable :: "pyval \<Rightarrow> bool" where
  "hashable (PList xs) = False"
| "hashable (PDict kvs) = False"
| "hashable (PSet xs) = False"
| "hashable v = True"

fun py_dedupe :: "pyval list \<Rightarrow> pyval list" where
  "py_dedupe [] = []"
| "py_dedupe (x # xs) = x # py_dedupe (filter (\<lambda>y. \<not> py_eq x y) xs)"

definition key_val :: "pykey \<Rightarrow> pyval" where
  "key_val k = (case k of KStr s \<Rightarrow> PStr s | KInt n \<Rightarrow> PInt n)"

definition py_set :: "pyval \<Rightarrow> exn + pyval" where
  "py_set data =
     (case data of
        PList xs \<Rightarrow> if list_all hashable xs then Inr (PSet (py_dedupe xs)) else Inl TypeError
      | PStr s \<Rightarrow> Inr (PSet (py_dedupe (map (\<lambda>c. PStr [c]) s)))
      | PDict kvs \<Rightarrow> Inr (PSet (py_dedupe (map (\<lambda>p. key_val (fst p)) kvs)))
      | PSet xs \<Rightarrow> Inr (PSet xs)
      | _ \<Rightarrow> Inl TypeError)"

text \<open>\<open>int(x)\<close> for a float: truncation towards zero.\<close>

definition py_int_of_float :: "rat \<Rightarrow> int" where
  "py_int_of_float x = (if 0 \<le> x then \<lfloor>x\<rfloor> else \<lceil>x\<rceil>)"

text \<open>\<open>data.get('active', False)\<close>: only a dictionary has \<open>get\<close>.\<close>

definition get_active :: "pyval \<Rightarrow> exn + pyval" where
  "get_active data =
     (case data of
        PDict kvs \<Rightarrow>
          (case map_of kvs (KStr (ascii ''active'')) of Some v \<Rightarrow> Inr v | None \<Rightarrow> Inr (PBool False))
      | _ \<Rightarrow> Inl AttributeError)"

text \<open>\<open>{int(k): v for k, v in data.items()}\<close>.\<close>

fun int_keys :: "(pykey \<times> pyval) list \<Rightarrow> (pykey \<times> pyval) list \<Rightarrow> exn + pyval" where
  "int_keys [] acc = Inr (PDict acc)"
| "int_keys ((KInt n, v) # kvs) acc = int_keys kvs (AList.update (KInt n) v acc)"
| "int_keys ((KStr s, v) # kvs) acc =
     (case py_int_of_str s of
        None \<Rightarrow> Inl ValueError
      | Some n \<Rightarrow> int_keys kvs (AList.update (KInt n) v acc))"

text \<open>The body of the \<open>try\<close> of \<open>_load_data\<close>, after \<open>json.load\<close>.\<close>

definition load_body :: "pyval \<Rightarrow> string \<Rightarrow> bool \<Rightarrow> bool \<Rightarrow> exn + pyval" where
  "load_body data filename is_set is_scalar =
     (if is_set then py_set data
      else if is_scalar then
        (if filename = ''inter_mode_status.json'' then get_active data
         else (case data of
                 PBool b \<Rightarrow> Inr (PInt (if b then 1 else 0))
               | PInt n \<Rightarrow> Inr (PInt n)
               | PFloat x \<Rightarrow> Inr (PInt (py_int_of_float x))
               | _ \<Rightarrow> Inr data))
      else if filename = ''inter_data.json'' then Inr data
      else if filename = ''sequential_history.json'' then
        (case data of PDict kvs \<Rightarrow> int_keys kvs [] | _ \<Rightarrow> Inl AttributeError)
      else if filename = ''smart_rules.json'' then Inr data
      else Inr data)"

text \<open>The defaults of the handler of \<open>FileNotFoundError\<close> and \<open>JSONDecodeError\<close>.\<close>

definition load_default :: "string \<Rightarrow> bool \<Rightarrow> bool \<Rightarrow> pyval" where
  "load_default filename is_set is_scalar =
     (if is_set then PSet []
      else if is_scalar \<and> filename = ''inter_mode_status.json'' then PBool False
      else if is_scalar then PFloat 0
      else if filename = ''inter_data.json'' then PList []
      else if filename = ''sequential_history.json'' then PDict []
      else if filename = ''smart_rules.json'' then PList []
      else PDict [])"

text \<open>The value of the handler of every other \<open>Exception\<close>.\<close>

definition load_fallback :: "string \<Rightarrow> bool \<Rightarrow> pyval" where
  "load_fallback filename is_set =
     (if is_set then PSet []
      else if filename = ''inter_mode_status.json'' then PBool False
      else if filename = ''inter_data.json'' then PList []
      else PDict [])"

text \<open>
  \<open>_load_data\<close>: the value returned and the warnings and errors logged. The \<open>try\<close> is the
  sum type: an exception of the body is a value here, and each handler turns it into a
  return.
\<close>

definition load_data :: "disk \<Rightarrow> string \<Rightarrow> bool \<Rightarrow> bool \<Rightarrow> pyval \<times> (log_level \<times> string) list" where
  "load_data d filename is_set is_scalar =
     (case (case read_json d filename of
              Inl e \<Rightarrow> Inl e
            | Inr data \<Rightarrow> load_body data filename is_set is_scalar) of
        Inr v \<Rightarrow> (v, [])
      | Inl e \<Rightarrow>
          if e = FileNotFoundError \<or> e = JSONDecodeError
          then (load_default filename is_set is_scalar, [(WARNING, filename)])
          else (load_fallback filename is_set, [(ERROR, filename)]))"


section \<open>The predictor (card_predictor.py, class CardPredictor)\<close>

text \<open>
  The entries of \<open>sequential_history\<close>, \<open>inter_data\<close> and \<open>smart_rules\<close> are dictionaries
  with fixed keys, written and read by the code below; they are records. The three
  attributes the code below only loads and saves (\<open>predictions\<close>, \<open>processed_messages\<close>,
  \<open>last_prediction_time\<close>) stay Python values, and \<open>config_data\<close> is a dictionary.
  \<open>sequential_history\<close> is a dictionary in insertion order. A channel id is an integer or
  \<open>None\<close>. The files and the warnings and errors logged so far are carried along with the
  attributes.
\<close>

record game_record =
  cartes :: "pystr list"
  date :: pystr

record trigger_sample =
  numero_resultat :: int
  declencheur :: "pystr list"
  numero_declencheur :: int
  carte_k :: pystr
  date_resultat :: pystr

record smart_rule =
  cards :: "pystr list"
  count :: int

record predictor =
  predictions :: pyval
  processed_messages :: pyval
  last_prediction_time :: pyval
  target_channel_id :: "int option"
  prediction_channel_id :: "int option"
  config_data :: "(pykey \<times> pyval) list"
  sequential_history :: "(int \<times> game_record) list"
  inter_data :: "trigger_sample list"
  is_inter_mode_active :: bool
  smart_rules :: "smart_rule list"
  files :: disk
  logged :: "(log_level \<times> string) list"

text \<open>The records as the Python values they are, for \<open>_save_data\<close>.\<close>

definition py_game :: "game_record \<Rightarrow> pyval" where
  "py_game g =
     PDict [(KStr (ascii ''cartes''), PList (map PStr (cartes g))),
            (KStr (ascii ''date''), PStr (date g))]"

definition py_history :: "(int \<times> game_record) list \<Rightarrow> pyval" where
  "py_history h = PDict (map (\<lambda>p. (KInt (fst p), py_game (snd p))) h)"

definition py_sample :: "trigger_sample \<Rightarrow> pyval" where
  "py_sample e =
     PDict [(KStr (ascii ''numero_resultat''), PInt (numero_resultat e)),
            (KStr (ascii ''declencheur''), PList (map PStr (declencheur e))),
            (KStr (ascii ''numero_declencheur''), PInt (numero_declencheur e)),
            (KStr (ascii ''carte_k''), PStr (carte_k e)),
            (KStr (ascii ''date_resultat''), PStr (date_resultat e))]"

definition py_inter_data :: "trigger_sample list \<Rightarrow> pyval" where
  "py_inter_data xs = PList (map py_sample xs)"

definition py_rule :: "smart_rule \<Rightarrow> pyval" where
  "py_rule r =
     PDict [(KStr (ascii ''cards''), PList (map PStr (cards r))),
            (KStr (ascii ''count''), PInt (count r))]"

definition py_smart_rules :: "smart_rule list \<Rightarrow> pyval" where
  "py_smart_rules rs = PList (map py_rule rs)"

text \<open>
  \<open>_save_data\<close>. For the mode file the argument is ignored and the attribute is written.
  An exception of the write is logged and not raised again; the attributes are not
  touched either way.
\<close>

definition save_data :: "predictor \<Rightarrow> pyval \<Rightarrow> string \<Rightarrow> predictor" where
  "save_data st data filename =
     (let data_to_save =
            (if filename = ''inter_mode_status.json''
             then PDict [(KStr (ascii ''active''), PBool (is_inter_mode_active st))]
             else (case data of PSet xs \<Rightarrow> PList xs | _ \<Rightarrow> data))
      in case write_json (files st) filename data_to_save of
           Inr d \<Rightarrow> st\<lparr>files := d\<rparr>
         | Inl (e, d) \<Rightarrow> st\<lparr>files := d, logged := logged st @ [(ERROR, filename)]\<rparr>)"

definition save_all_data :: "predictor \<Rightarrow> predictor" where
  "save_all_data st0 =
     (let st1 = save_data st0 (predictions st0) ''predictions.json'';
          st2 = save_data st1 (processed_messages st1) ''processed.json'';
          st3 = save_data st2 (last_prediction_time st2) ''last_prediction_time.json'';
          st4 = save_data st3 (py_inter_data (inter_data st3)) ''inter_data.json'';
          st5 = save_data st4 (py_history (sequential_history st4)) ''sequential_history.json'';
          st6 = save_data st5 (PBool (is_inter_mode_active st5)) ''inter_mode_status.json''
      in save_data st6 (py_smart_rules (smart_rules st6)) ''smart_rules.json'')"

text \<open>\<open>_save_channels_config\<close> and \<open>set_channel_id\<close>.\<close>

definition py_id :: "int option \<Rightarrow> pyval" where
  "py_id c = (case c of None \<Rightarrow> PNone | Some n \<Rightarrow> PInt n)"

definition save_channels_config :: "predictor \<Rightarrow> predictor" where
  "save_channels_config st =
     (let cfg1 = AList.update (KStr (ascii ''target_channel_id'')) (py_id (target_channel_id st))
                   (config_data st);
          cfg2 = AList.update (KStr (ascii ''prediction_channel_id''))
                   (py_id (prediction_channel_id st)) cfg1;
          st1 = st\<lparr>config_data := cfg2\<rparr>
      in save_data st1 (PDict (config_data st1)) ''channels_config.json'')"

definition set_channel_id :: "predictor \<Rightarrow> int \<Rightarrow> string \<Rightarrow> predictor \<times> bool" where
  "set_channel_id st channel_id channel_type =
     (if channel_type = ''source''
      then (save_channels_config (st\<lparr>target_channel_id := Some channel_id\<rparr>), True)
      else if channel_type = ''prediction''
      then (save_channels_config (st\<lparr>prediction_channel_id := Some channel_id\<rparr>), True)
      else (st, False))"

text \<open>Step 4 of \<open>collect_inter_data\<close>: the dictionary comprehension that drops old games.\<close>

definition drop_obsolete :: "predictor \<Rightarrow> int \<Rightarrow> predictor" where
  "drop_obsolete st game_number =
     (let obsolete_game_limit = game_number - 50
      in st\<lparr>sequential_history :=
               filter (\<lambda>p. fst p \<ge> obsolete_game_limit) (sequential_history st)\<rparr>)"

text \<open>
  \<open>collect_inter_data\<close>. \<open>now1\<close> and \<open>now2\<close> are what the two calls of
  \<open>datetime.now().isoformat()\<close> return. Each \<open>return\<close> of the source is a branch that
  does not reach \<open>drop_obsolete\<close>.
\<close>

definition collect_inter_data :: "predictor \<Rightarrow> int \<Rightarrow> pystr \<Rightarrow> pystr \<Rightarrow> pystr \<Rightarrow> predictor" where
  "collect_inter_data st game_number message now1 now2 =
     (case extract_first_parentheses_content message of
        None \<Rightarrow> st
      | Some first_group_content \<Rightarrow>
          if first_group_content = [] then st
          else
            let first_two_cards = get_first_two_cards first_group_content;
                st1 = (if length first_two_cards = 2
                       then st\<lparr>sequential_history :=
                                 AList.update game_number \<lparr>cartes = first_two_cards, date = now1\<rparr>
                                   (sequential_history st)\<rparr>
                       else st)
            in case check_value_K_in_first_parentheses message of
                 None \<Rightarrow> drop_obsolete st1 game_number
               | Some k_card_details \<Rightarrow>
                   let n_minus_2_game = game_number - 2
                   in case map_of (sequential_history st1) n_minus_2_game of
                        None \<Rightarrow> drop_obsolete st1 game_number
                      | Some trigger_entry \<Rightarrow>
                          let trigger_cards = cartes trigger_entry;
                              is_duplicate =
                                list_ex (\<lambda>entry. numero_resultat entry = game_number) (inter_data st1)
                          in if is_duplicate then st1
                             else
                               let new_entry =
                                     \<lparr>numero_resultat = game_number,
                                      declencheur = trigger_cards,
                                      numero_declencheur = n_minus_2_game,
                                      carte_k = fst k_card_details @ snd k_card_details,
                                      date_resultat = now2\<rparr>;
                                   st2 = st1\<lparr>inter_data := inter_data st1 @ [new_entry]\<rparr>;
                                   st3 = save_all_data st2
                               in drop_obsolete st3 game_number)"

text \<open>
  \<open>analyze_and_set_smart_rules\<close>. The counting dictionary is in insertion order, that
  is, in the order in which the trigger pairs first appear in the log. \<open>sorted\<close> is
  stable, also with \<open>reverse=True\<close>: items of equal count keep their order.
\<close>

definition count_declencheurs :: "trigger_sample list \<Rightarrow> (pystr list \<times> int) list" where
  "count_declencheurs xs =
     fold (\<lambda>data declencheur_counts.
             AList.update (declencheur data)
               ((case map_of declencheur_counts (declencheur data) of None \<Rightarrow> 0 | Some c \<Rightarrow> c) + 1)
               declencheur_counts)
          xs []"

definition py_sorted_reverse :: "('a \<Rightarrow> int) \<Rightarrow> 'a list \<Rightarrow> 'a list" where
  "py_sorted_reverse key xs = sort_key (\<lambda>x. - key x) xs"

definition format_rule :: "smart_rule \<Rightarrow> exn + pystr" where
  "format_rule r =
     (case cards r of
        a # b # _ \<Rightarrow> Inr (a @ [32] @ b @ ascii '' (x'' @ py_str_int (count r) @ ascii '')'')
      | _ \<Rightarrow> Inl IndexError)"

fun all_or_raise :: "(exn + 'a) list \<Rightarrow> exn + 'a list" where
  "all_or_raise [] = Inr []"
| "all_or_raise (Inl e # rs) = Inl e"
| "all_or_raise (Inr x # rs) = (case all_or_raise rs of Inl e \<Rightarrow> Inl e | Inr xs \<Rightarrow> Inr (x # xs))"

definition analyze_and_set_smart_rules :: "predictor \<Rightarrow> bool \<Rightarrow> predictor \<times> (exn + pystr list)" where
  "analyze_and_set_smart_rules st initial_load =
     (let declencheur_counts = count_declencheurs (inter_data st);
          sorted_declencheurs = py_sorted_reverse snd declencheur_counts;
          top_3 = map (\<lambda>item. \<lparr>cards = fst item, count = snd item\<rparr>) (take 3 sorted_declencheurs);
          st1 = st\<lparr>smart_rules := top_3\<rparr>;
          st2 = (if top_3 \<noteq> [] then st1\<lparr>is_inter_mode_active := True\<rparr>
                 else if \<not> initial_load then st1\<lparr>is_inter_mode_active := False\<rparr>
                 else st1);
          st3 = save_data st2 (PBool (is_inter_mode_active st2)) ''inter_mode_status.json'';
          st4 = save_data st3 (py_smart_rules (smart_rules st3)) ''smart_rules.json''
      in (st4, all_or_raise (map format_rule top_3)))"

text \<open>\<open>not self.target_channel_id\<close>: \<open>None\<close> and \<open>0\<close> are false.\<close>

definition truthy_id :: "int option \<Rightarrow> bool" where
  "truthy_id c = (case c of None \<Rightarrow> False | Some n \<Rightarrow> n \<noteq> 0)"

definition KING :: pystr where "KING = [75]"

text \<open>
  The prediction logic of \<open>should_predict\<close>, from \<open>predicted_value = None\<close> to the end of
  the static rules. The second group of parentheses is parsed by the source and not used.
  The static rules are an \<open>if\<close>/\<open>elif\<close>/\<open>elif\<close> chain under \<open>if not predicted_value\<close>:
  when there is no ten of hearts the second branch (\<open>elif not predicted_value\<close>) is the
  one taken, so the third branch, the gap rule, runs on no input and is left out.
\<close>

definition predicted_value :: "predictor \<Rightarrow> pystr \<Rightarrow> pystr option" where
  "predicted_value st message =
     (case extract_first_parentheses_content message of
        None \<Rightarrow> None
      | Some first_group_content \<Rightarrow>
          if first_group_content = [] then None
          else
            let card_details = extract_card_details first_group_content;
                inter =
                  (if is_inter_mode_active st \<and> smart_rules st \<noteq> [] \<and>
                      list_ex (\<lambda>rule. cards rule = get_first_two_cards first_group_content)
                        (smart_rules st)
                   then Some KING else None)
            in case inter of
                 Some v \<Rightarrow> Some v
               | None \<Rightarrow>
                   if list_ex (\<lambda>vc. fst vc = ascii ''10'' \<and> snd vc = HEART) card_details
                   then Some KING
                   else (case extract_total_score message of
                           Some total_score \<Rightarrow>
                             if total_score \<noteq> 0 \<and> total_score \<ge> 45 then Some KING else None
                         | None \<Rightarrow> None))"

text \<open>
  Modelled from the spec: the end of \<open>should_predict\<close>, which the source file lacks (it
  stops inside the gap rule). The spec gives the result as (should_predict, game_number,
  predicted_rank): a prediction when a rule has set the predicted value, and no prediction
  otherwise.
\<close>

definition should_predict_result :: "int \<Rightarrow> pystr option \<Rightarrow> bool \<times> int option \<times> pystr option" where
  "should_predict_result game_number pv =
     (case pv of
        Some v \<Rightarrow> (True, Some game_number, Some v)
      | None \<Rightarrow> (False, None, None))"

definition should_predict ::
  "predictor \<Rightarrow> pystr \<Rightarrow> pystr \<Rightarrow> pystr \<Rightarrow> (bool \<times> int option \<times> pystr option) \<times> predictor" where
  "should_predict st message now1 now2 =
     (if \<not> truthy_id (target_channel_id st) then ((False, None, None), st)
      else
        case extract_game_number message of
          None \<Rightarrow> ((False, None, None), st)
        | Some game_number \<Rightarrow>
            if game_number = 0 then ((False, None, None), st)
            else
              let st1 = collect_inter_data st game_number message now1 now2
              in if has_pending_indicators message then ((False, None, None), st1)
                 else if \<not> has_completion_indicators message then ((False, None, None), st1)
                 else (should_predict_result game_number (predicted_value st1 message), st1))"

section \<open>The channel handler (handlers.py, _process_channel_message)\<close>

text \<open>
  The handler calls three functions that are not part of what is verified here:
  \<open>_verify_prediction_common\<close> and \<open>make_prediction\<close>, which the source file lacks, and
  \<open>process_prediction_action\<close>, which talks to Telegram. They are parameters: any
  functions of those shapes. The handler returns the new-prediction action it hands to
  \<open>process_prediction_action\<close>, if any; adding to \<open>None\<close> is a \<open>TypeError\<close>.
\<close>

record action =
  action_type :: string
  predicted_game :: int
  new_message :: pystr

record collaborators =
  verify_prediction_common :: "predictor \<Rightarrow> pystr \<Rightarrow> bool \<Rightarrow> action option \<times> predictor"
  make_prediction :: "predictor \<Rightarrow> int option \<Rightarrow> pystr option \<Rightarrow> pystr \<times> predictor"
  process_prediction_action :: "predictor \<Rightarrow> action \<Rightarrow> predictor"

text \<open>Step 1 of the handler: the verification of past predictions.\<close>

definition after_verification :: "collaborators \<Rightarrow> predictor \<Rightarrow> pystr \<Rightarrow> bool \<Rightarrow> predictor" where
  "after_verification c st message_text is_edited =
     (let (verification_action, st1) = verify_prediction_common c st message_text is_edited
      in case verification_action of
           None \<Rightarrow> st1
         | Some a \<Rightarrow> process_prediction_action c st1 a)"

definition process_channel_message ::
  "collaborators \<Rightarrow> predictor \<Rightarrow> pystr \<Rightarrow> bool \<Rightarrow> pystr \<Rightarrow> pystr \<Rightarrow> (exn + action option) \<times> predictor" where
  "process_channel_message c st message_text is_edited now1 now2 =
     (if message_text = [] then (Inr None, st)
      else
        let st2 = after_verification c st message_text is_edited;
            (r, st3) = should_predict st2 message_text now1 now2;
            (should, game_number, pv) = r
        in if should then
             (let (new_prediction_message, st4) = make_prediction c st3 game_number pv
              in case game_number of
                   None \<Rightarrow> (Inl TypeError, st4)
                 | Some n \<Rightarrow>
                     let a = \<lparr>action_type = ''new_prediction'',
                              predicted_game = n + 2,
                              new_message = new_prediction_message\<rparr>
                     in (Inr (Some a), process_prediction_action c st4 a))
           else (Inr None, st3))"

text \<open>
  The button that returns to the static rules (handlers.py, \<open>_handle_callback_query\<close>,
  case \<open>CALLBACK_INTER_DEFAULT\<close>): the rules stay in memory.
\<close>

definition inter_default :: "predictor \<Rightarrow> predictor" where
  "inter_default st =
     (let st1 = st\<lparr>is_inter_mode_active := False\<rparr>
      in save_data st1 (PBool (is_inter_mode_active st1)) ''inter_mode_status.json'')"

text \<open>
  The states the predictor reaches from one with an empty trigger log, by the operations
  above.
\<close>

inductive reachable :: "predictor \<Rightarrow> bool" where
  start: "inter_data st = [] \<Longrightarrow> reachable st"
| message: "reachable st \<Longrightarrow> reachable (snd (should_predict st message now1 now2))"
| collect: "reachable st \<Longrightarrow> reachable (collect_inter_data st game_number message now1 now2)"
| analyze: "reachable st \<Longrightarrow> reachable (fst (analyze_and_set_smart_rules st initial_load))"
| channel: "reachable st \<Longrightarrow> reachable (fst (set_channel_id st channel_id channel_type))"
| static_rules: "reachable st \<Longrightarrow> reachable (inter_default st)"
| flush: "reachable st \<Longrightarrow> reachable (save_all_data st)"

section \<open>Saving and loading again\<close>

text \<open>
  The value \<open>_load_data\<close> returns for a file right after \<open>_save_data\<close> has written it.
\<close>

definition reloaded :: "predictor \<Rightarrow> pyval \<Rightarrow> string \<Rightarrow> bool \<Rightarrow> bool \<Rightarrow> pyval" where
  "reloaded st data filename is_set is_scalar =
     fst (load_data (files (save_data st data filename)) filename is_set is_scalar)"

text \<open>
  The Python values that are JSON documents as they stand: no set, and dictionaries keyed
  by strings only.
\<close>

fun str_key :: "pykey \<Rightarrow> bool" where
  "str_key (KStr s) = True"
| "str_key (KInt n) = False"

fun json_native :: "pyval \<Rightarrow> bool" where
  "json_native (PList xs) = list_all json_native xs"
| "json_native (PDict kvs) =
     (list_all str_key (map fst kvs) \<and> distinct (map fst kvs) \<and>
      list_all json_native (map snd kvs))"
| "json_native (PSet xs) = False"
| "json_native v = True"

section \<open>The ranking of trigger pairs, in the words of the spec\<close>

text \<open>
  The spec describes the recomputation of the rules without the counting dictionary and
  without the stability of the sort: all distinct trigger pairs of the log are ranked by
  occurrence count, descending, ties broken by the position at which a pair is first seen
  in the log, and the first three are kept. \<open>top_3_spec\<close> is that description;
  the order is the lexicographic one on (negated count, first position), under which no
  two distinct pairs are equal.
\<close>

primrec first_occurrences :: "'a list \<Rightarrow> 'a list" where
  "first_occurrences [] = []"
| "first_occurrences (x # xs) = x # filter (\<lambda>y. y \<noteq> x) (first_occurrences xs)"

definition first_seen :: "'a list \<Rightarrow> 'a \<Rightarrow> nat" where
  "first_seen xs x = length (takeWhile (\<lambda>y. y \<noteq> x) xs)"

definition occurrences :: "trigger_sample list \<Rightarrow> pystr list \<Rightarrow> int" where
  "occurrences samples pair = int (length (filter (\<lambda>e. declencheur e = pair) samples))"

definition top_3_spec :: "trigger_sample list \<Rightarrow> smart_rule list" where
  "top_3_spec samples =
     (let pairs = map declencheur samples
      in map (\<lambda>pair. \<lparr>cards = pair, count = occurrences samples pair\<rparr>)
           (take 3 (sort_key (\<lambda>pair. (- occurrences samples pair, first_seen pairs pair))
                      (first_occurrences pairs))))"

section \<open>Example states and messages\<close>

text \<open>
  The attributes \<open>__init__\<close> sets when no file exists (every load takes its default and
  logs a warning), and the same predictor once a source channel is bound.
\<close>

definition no_files :: disk where
  "no_files = \<lparr>stored = (\<lambda>_. Missing), on_write = (\<lambda>_. Succeeds)\<rparr>"

definition fresh_predictor :: predictor where
  "fresh_predictor =
     \<lparr>predictions = PDict [],
      processed_messages = PSet [],
      last_prediction_time = PFloat 0,
      target_channel_id = None,
      prediction_channel_id = None,
      config_data = [],
      sequential_history = [],
      inter_data = [],
      is_inter_mode_active = False,
      smart_rules = [],
      files = no_files,
      logged = map (Pair WARNING)
        [''predictions.json'', ''processed.json'', ''last_prediction_time.json'',
         ''channels_config.json'', ''sequential_history.json'', ''inter_data.json'',
         ''inter_mode_status.json'', ''smart_rules.json'']\<rparr>"

definition bound_predictor :: predictor where
  "bound_predictor = fresh_predictor\<lparr>target_channel_id := Some (- 1001)\<rparr>"

definition T1 :: pystr where "T1 = ascii ''2024-01-01T10:00:00''"
definition T2 :: pystr where "T2 = ascii ''2024-01-01T10:00:01''"
definition T3 :: pystr where "T3 = ascii ''2024-01-01T10:05:00''"
definition T4 :: pystr where "T4 = ascii ''2024-01-01T10:05:01''"
definition T5 :: pystr where "T5 = ascii ''2024-01-01T10:09:00''"
definition T6 :: pystr where "T6 = ascii ''2024-01-01T10:09:01''"

text \<open>The messages of the spec's scenarios, and others in their format.\<close>

definition msg_50 :: pystr where
  "msg_50 = ascii ''#N50. (10'' @ HEART @ ascii '' 3'' @ DIAMOND @ ascii '') '' @ [CHECK]"

definition msg_10_pending :: pystr where
  "msg_10_pending = ascii ''#N10. (K'' @ SPADE @ ascii '' 2'' @ HEART @ ascii '') '' @ [CLOCK1]"

definition msg_5 :: pystr where
  "msg_5 = ascii ''#N5. (7'' @ DIAMOND @ ascii '' 9'' @ SPADE @ ascii '') '' @ [CHECK]"

definition msg_5_edited :: pystr where
  "msg_5_edited = ascii ''#N5. (8'' @ DIAMOND @ ascii '' 9'' @ SPADE @ ascii '') '' @ [CHECK]"

definition msg_0 :: pystr where
  "msg_0 = ascii ''#N0. (10'' @ HEART @ ascii '' 3'' @ DIAMOND @ ascii '') '' @ [CHECK]"

definition msg_100_bare :: pystr where
  "msg_100_bare = ascii ''#N100. '' @ [CHECK]"

definition msg_100 :: pystr where
  "msg_100 = ascii ''#N100. (K'' @ SPADE @ ascii '' 5'' @ HEART @ ascii '') '' @ [CHECK]"

definition msg_7 :: pystr where
  "msg_7 = ascii ''#N7. (K'' @ SPADE @ ascii '' 2'' @ HEART @ ascii '') '' @ [CHECK]"

text \<open>The predictor after the message of game 5, and after the message of game 7 that follows.\<close>

definition after_msg_5 :: predictor where
  "after_msg_5 = snd (should_predict bound_predictor msg_5 T1 T2)"

definition after_msg_7 :: predictor where
  "after_msg_7 = snd (should_predict after_msg_5 msg_7 T3 T4)"

text \<open>Collaborators that verify nothing, answer with a fixed text and deliver nothing.\<close>

definition quiet_collaborators :: collaborators where
  "quiet_collaborators =
     \<lparr>verify_prediction_common = (\<lambda>st message_text is_edited. (None, st)),
      make_prediction = (\<lambda>st game_number pv. (ascii ''prediction'', st)),
      process_prediction_action = (\<lambda>st a. st)\<rparr>"

text \<open>
  A trigger log of four samples: three with the pair seven of diamonds, nine of spades,
  and one, the second, with another pair.
\<close>

definition sample_log :: "trigger_sample list" where
  "sample_log =
     [\<lparr>numero_resultat = 7, declencheur = [ascii ''7'' @ DIAMOND, ascii ''9'' @ SPADE],
       numero_declencheur = 5, carte_k = ascii ''K'' @ SPADE, date_resultat = T1\<rparr>,
      \<lparr>numero_resultat = 12, declencheur = [ascii ''3'' @ CLUB, ascii ''J'' @ HEART],
       numero_declencheur = 10, carte_k = ascii ''K'' @ HEART, date_resultat = T2\<rparr>,
      \<lparr>numero_resultat = 20, declencheur = [ascii ''7'' @ DIAMOND, ascii ''9'' @ SPADE],
       numero_declencheur = 18, carte_k = ascii ''K'' @ CLUB, date_resultat = T3\<rparr>,
      \<lparr>numero_resultat = 31, declencheur = [ascii ''7'' @ DIAMOND, ascii ''9'' @ SPADE],
       numero_declencheur = 29, carte_k = ascii ''K'' @ DIAMOND, date_resultat = T4\<rparr>]"

definition learned_predictor :: predictor where
  "learned_predictor = bound_predictor\<lparr>inter_data := sample_log\<rparr>"

text \<open>
  A disk whose \<open>smart_rules.json\<close> and \<open>last_prediction_time.json\<close> cannot be read as
  text (bytes that are not UTF-8, or no permission to read).
\<close>

definition odd_files :: disk where
  "odd_files =
     \<lparr>stored = (\<lambda>_. Missing)(''smart_rules.json'' := Unreadable,
                               ''last_prediction_time.json'' := Unreadable),
      on_write = (\<lambda>_. Succeeds)\<rparr>"

text \<open>A window of two games, a predictions dictionary keyed by strings, and message ids.\<close>

definition sample_history :: "(int \<times> game_record) list" where
  "sample_history =
     [(5, \<lparr>cartes = [ascii ''7'' @ DIAMOND, ascii ''9'' @ SPADE], date = T1\<rparr>),
      (7, \<lparr>cartes = [ascii ''K'' @ SPADE, ascii ''2'' @ HEART], date = T3\<rparr>)]"

definition sample_predictions :: "(pykey \<times> pyval) list" where
  "sample_predictions =
     [(KStr (ascii ''52''),
       PDict [(KStr (ascii ''predicted_costume''), PStr KING),
              (KStr (ascii ''status''), PStr (ascii ''pending'')),
              (KStr (ascii ''message_id''), PNone)])]"

definition sample_processed :: "pyval list" where
  "sample_processed = [PInt 4101, PInt 4102]"

section \<open>Evaluating the extractors on the example messages\<close>

lemmas sym_defs = ascii_def HEART_def DIAMOND_def SPADE_def CLUB_def RED_HEART_def CHECK_def
  CLOCK1_def ALARM_def BEGINNER_def BLUE_def KING_def

text \<open>
  Below U+0660 the decimal digits are the ASCII digits, and the symbols of the messages
  are no digits.
\<close>

lemma digit_value_low:
  "c < 0x660 \<Longrightarrow> digit_value c = (if 48 \<le> c \<and> c \<le> 57 then Some (c - 48) else None)"
  by (simp add: digit_value_def decimal_zeros_def)

lemma is_digit_low: "c < 0x660 \<Longrightarrow> is_digit c = (48 \<le> c \<and> c \<le> 57)"
  by (simp add: is_digit_def digit_value_low)

lemma symbols_no_digits:
  "\<not> is_digit 0x2660" "\<not> is_digit 0x2663" "\<not> is_digit 0x2665" "\<not> is_digit 0x2666"
  "\<not> is_digit 0x2764" "\<not> is_digit 0xFE0F" "\<not> is_digit 0x2705" "\<not> is_digit 0x23F0"
  "\<not> is_digit 0x1F550" "\<not> is_digit 0x1F530" "\<not> is_digit 0x1F535" "\<not> is_digit 0x212A"
  by (simp_all add: is_digit_def digit_value_def decimal_zeros_def)

lemmas tok_defs = extract_game_number_def extract_first_parentheses_content_def
  extract_card_details_def get_first_two_cards_def check_value_K_in_first_parentheses_def
  has_pending_indicators_def has_completion_indicators_def extract_total_score_def
  is_digit_low symbols_no_digits digit_value_low int_of_digits_def py_strip_def py_isspace_def match_card_def match_suit_def
  is_rank_letter_def py_upper_def

lemma findall_cards_step:
  "findall_cards k (c # cs) =
     (if k = 0 then
        (case match_card (c # cs) of
           Some (found, len) \<Rightarrow> found # findall_cards (len - 1) cs
         | None \<Rightarrow> findall_cards 0 cs)
      else findall_cards (k - 1) cs)"
  by (cases k) simp_all

lemmas tok_defs2 = tok_defs findall_cards_step

lemma arabic_indic_game: "extract_game_number (ascii ''#N'' @ [0x663] @ ascii ''.'') = Some 3"
  by (simp add: ascii_def extract_game_number_def int_of_digits_def is_digit_def
        digit_value_def decimal_zeros_def)

lemma msg_5_game: "extract_game_number msg_5 = Some 5"
  by (simp add: msg_5_def sym_defs tok_defs)

lemma msg_5_content:
  "extract_first_parentheses_content msg_5 = Some (ascii ''7'' @ DIAMOND @ ascii '' 9'' @ SPADE)"
  by (simp add: msg_5_def sym_defs tok_defs)

lemma msg_5_cards:
  "get_first_two_cards (ascii ''7'' @ DIAMOND @ ascii '' 9'' @ SPADE) =
     [ascii ''7'' @ DIAMOND, ascii ''9'' @ SPADE]"
  by (simp add: sym_defs tok_defs)

lemma msg_5_no_king: "check_value_K_in_first_parentheses msg_5 = None"
  by (simp add: msg_5_def sym_defs tok_defs)

lemma msg_5_history:
  "sequential_history (collect_inter_data fresh_predictor 5 msg_5 T1 T2) =
     [(5, \<lparr>cartes = [ascii ''7'' @ DIAMOND, ascii ''9'' @ SPADE], date = T1\<rparr>)]"
  by (simp add: collect_inter_data_def msg_5_content msg_5_cards msg_5_no_king
        drop_obsolete_def fresh_predictor_def Let_def)
     (simp add: sym_defs)

lemma msg_0_game: "extract_game_number msg_0 = Some 0"
  by (simp add: msg_0_def sym_defs tok_defs)

lemma msg_10_pending_flag: "has_pending_indicators msg_10_pending"
  by (simp add: msg_10_pending_def sym_defs tok_defs)

lemma msg_10_pending_game: "extract_game_number msg_10_pending = Some 10"
  by (simp add: msg_10_pending_def sym_defs tok_defs)

lemma bound_predictor_truthy: "truthy_id (target_channel_id bound_predictor)"
  by (simp add: bound_predictor_def truthy_id_def)

lemma msg_5_edited_game: "extract_game_number msg_5_edited = Some 5"
  by (simp add: msg_5_edited_def sym_defs tok_defs)

lemma msg_5_edited_content:
  "extract_first_parentheses_content msg_5_edited = Some (ascii ''8'' @ DIAMOND @ ascii '' 9'' @ SPADE)"
  by (simp add: msg_5_edited_def sym_defs tok_defs)

lemma msg_5_edited_cards:
  "get_first_two_cards (ascii ''8'' @ DIAMOND @ ascii '' 9'' @ SPADE) =
     [ascii ''8'' @ DIAMOND, ascii ''9'' @ SPADE]"
  by (simp add: sym_defs tok_defs)

lemma msg_5_edited_no_king: "check_value_K_in_first_parentheses msg_5_edited = None"
  by (simp add: msg_5_edited_def sym_defs tok_defs)

lemma msg_100_bare_game: "extract_game_number msg_100_bare = Some 100"
  by (simp add: msg_100_bare_def sym_defs tok_defs)

lemma msg_100_bare_content: "extract_first_parentheses_content msg_100_bare = None"
  by (simp add: msg_100_bare_def sym_defs tok_defs)

lemma times_differ: "T1 \<noteq> T3"
  by (simp add: T1_def T3_def ascii_def)

lemma msg_100_game: "extract_game_number msg_100 = Some 100"
  by (simp add: msg_100_def sym_defs tok_defs)

lemma msg_100_content:
  "extract_first_parentheses_content msg_100 = Some (ascii ''K'' @ SPADE @ ascii '' 5'' @ HEART)"
  by (simp add: msg_100_def sym_defs tok_defs)

lemma msg_7_game: "extract_game_number msg_7 = Some 7"
  by (simp add: msg_7_def sym_defs tok_defs)

lemma msg_7_content:
  "extract_first_parentheses_content msg_7 = Some (ascii ''K'' @ SPADE @ ascii '' 2'' @ HEART)"
  by (simp add: msg_7_def sym_defs tok_defs)

lemma msg_7_cards:
  "get_first_two_cards (ascii ''K'' @ SPADE @ ascii '' 2'' @ HEART) =
     [ascii ''K'' @ SPADE, ascii ''2'' @ HEART]"
  by (simp add: sym_defs tok_defs2 del: findall_cards.simps(2,3))

lemma msg_7_king: "check_value_K_in_first_parentheses msg_7 = Some (ascii ''K'', SPADE)"
  by (simp add: msg_7_def sym_defs tok_defs2 del: findall_cards.simps(2,3))

lemma msg_50_game: "extract_game_number msg_50 = Some 50"
  by (simp add: msg_50_def sym_defs tok_defs)

lemma msg_50_flags: "\<not> has_pending_indicators msg_50" "has_completion_indicators msg_50"
  by (simp_all add: msg_50_def sym_defs tok_defs)

lemma msg_50_content:
  "extract_first_parentheses_content msg_50 = Some (ascii ''10'' @ HEART @ ascii '' 3'' @ DIAMOND)"
  by (simp add: msg_50_def sym_defs tok_defs)

lemma msg_50_details:
  "extract_card_details (ascii ''10'' @ HEART @ ascii '' 3'' @ DIAMOND) =
     [(ascii ''10'', HEART), (ascii ''3'', DIAMOND)]"
  by (simp add: sym_defs tok_defs2 del: findall_cards.simps(2,3))

section \<open>Lemmas on the operations\<close>

subsection \<open>What saving and cleaning leave alone\<close>

lemma save_data_attributes [simp]:
  "predictions (save_data st d f) = predictions st"
  "processed_messages (save_data st d f) = processed_messages st"
  "last_prediction_time (save_data st d f) = last_prediction_time st"
  "target_channel_id (save_data st d f) = target_channel_id st"
  "prediction_channel_id (save_data st d f) = prediction_channel_id st"
  "config_data (save_data st d f) = config_data st"
  "sequential_history (save_data st d f) = sequential_history st"
  "inter_data (save_data st d f) = inter_data st"
  "is_inter_mode_active (save_data st d f) = is_inter_mode_active st"
  "smart_rules (save_data st d f) = smart_rules st"
  by (simp_all add: save_data_def Let_def split: sum.splits prod.splits)

lemma save_all_data_attributes [simp]:
  "predictions (save_all_data st) = predictions st"
  "processed_messages (save_all_data st) = processed_messages st"
  "last_prediction_time (save_all_data st) = last_prediction_time st"
  "target_channel_id (save_all_data st) = target_channel_id st"
  "prediction_channel_id (save_all_data st) = prediction_channel_id st"
  "config_data (save_all_data st) = config_data st"
  "sequential_history (save_all_data st) = sequential_history st"
  "inter_data (save_all_data st) = inter_data st"
  "is_inter_mode_active (save_all_data st) = is_inter_mode_active st"
  "smart_rules (save_all_data st) = smart_rules st"
  by (simp_all add: save_all_data_def Let_def)

lemma drop_obsolete_attributes [simp]:
  "inter_data (drop_obsolete st g) = inter_data st"
  "is_inter_mode_active (drop_obsolete st g) = is_inter_mode_active st"
  "smart_rules (drop_obsolete st g) = smart_rules st"
  "target_channel_id (drop_obsolete st g) = target_channel_id st"
  "sequential_history (drop_obsolete st g) = filter (\<lambda>p. g - 50 \<le> fst p) (sequential_history st)"
  by (simp_all add: drop_obsolete_def Let_def)

subsection \<open>The correlator\<close>

lemma map_of_filter_fst:
  "map_of (filter (\<lambda>p. P (fst p)) h) k = (if P k then map_of h k else None)"
  by (induction h) auto

lemma collect_inter_data_rules [simp]:
  "is_inter_mode_active (collect_inter_data st g m t1 t2) = is_inter_mode_active st"
  "smart_rules (collect_inter_data st g m t1 t2) = smart_rules st"
  "target_channel_id (collect_inter_data st g m t1 t2) = target_channel_id st"
  by (simp_all add: collect_inter_data_def Let_def split: option.splits)

lemma collect_inter_data_record:
  "extract_first_parentheses_content message = Some first_group \<Longrightarrow> first_group \<noteq> [] \<Longrightarrow>
   length (get_first_two_cards first_group) = 2 \<Longrightarrow>
   map_of (sequential_history (collect_inter_data st n message now1 now2)) n =
     Some \<lparr>cartes = get_first_two_cards first_group, date = now1\<rparr>"
  by (simp add: collect_inter_data_def Let_def map_of_filter_fst update_conv' split: option.splits)

lemma collect_inter_data_log:
  "inter_data (collect_inter_data st g m t1 t2) = inter_data st \<or>
   (\<not> list_ex (\<lambda>entry. numero_resultat entry = g) (inter_data st) \<and>
    (\<exists>e. numero_resultat e = g \<and> inter_data (collect_inter_data st g m t1 t2) = inter_data st @ [e]))"
  by (simp add: collect_inter_data_def Let_def split: option.splits)

lemma collect_inter_data_distinct:
  "distinct (map numero_resultat (inter_data st)) \<Longrightarrow>
   distinct (map numero_resultat (inter_data (collect_inter_data st g m t1 t2)))"
proof -
  assume d: "distinct (map numero_resultat (inter_data st))"
  from collect_inter_data_log [of st g m t1 t2] show ?thesis
  proof
    assume "inter_data (collect_inter_data st g m t1 t2) = inter_data st"
    with d show ?thesis by simp
  next
    assume "\<not> list_ex (\<lambda>entry. numero_resultat entry = g) (inter_data st) \<and>
      (\<exists>e. numero_resultat e = g \<and>
         inter_data (collect_inter_data st g m t1 t2) = inter_data st @ [e])"
    then obtain e where fresh: "\<forall>x \<in> set (inter_data st). numero_resultat x \<noteq> g"
      and e: "numero_resultat e = g"
      and app: "inter_data (collect_inter_data st g m t1 t2) = inter_data st @ [e]"
      by (auto simp: list_ex_iff)
    from fresh e have "numero_resultat e \<notin> numero_resultat ` set (inter_data st)"
      by auto
    with d app show ?thesis by simp
  qed
qed

lemma should_predict_state:
  "truthy_id (target_channel_id st) \<Longrightarrow> extract_game_number message = Some n \<Longrightarrow> n \<noteq> 0 \<Longrightarrow>
   snd (should_predict st message now1 now2) = collect_inter_data st n message now1 now2"
  by (simp add: should_predict_def Let_def)

lemma should_predict_unbound:
  "\<not> truthy_id (target_channel_id st) \<or> extract_game_number message = None \<or>
   extract_game_number message = Some 0 \<Longrightarrow>
   should_predict st message now1 now2 = ((False, None, None), st)"
  by (auto simp: should_predict_def)

lemma should_predict_bound_blocked:
  "truthy_id (target_channel_id st) \<Longrightarrow> extract_game_number message = Some n \<Longrightarrow> n \<noteq> 0 \<Longrightarrow>
   has_pending_indicators message \<or> \<not> has_completion_indicators message \<Longrightarrow>
   should_predict st message now1 now2 =
     ((False, None, None), collect_inter_data st n message now1 now2)"
  by (auto simp: should_predict_def Let_def)

lemma fresh_predictor_unbound: "\<not> truthy_id (target_channel_id fresh_predictor)"
  by (simp add: fresh_predictor_def truthy_id_def)

lemma no_marker_game: "extract_game_number (ascii ''(10)'') = None"
  by (simp add: sym_defs tok_defs)

lemma collect_inter_data_no_king:
  "extract_first_parentheses_content m = Some c \<Longrightarrow> c \<noteq> [] \<Longrightarrow>
   check_value_K_in_first_parentheses m = None \<Longrightarrow> length (get_first_two_cards c) = 2 \<Longrightarrow>
   collect_inter_data st g m t1 t2 =
     drop_obsolete (st\<lparr>sequential_history :=
       AList.update g \<lparr>cartes = get_first_two_cards c, date = t1\<rparr> (sequential_history st)\<rparr>) g"
  by (simp add: collect_inter_data_def Let_def)

lemma after_msg_5_eval:
  "after_msg_5 = bound_predictor\<lparr>sequential_history :=
      [(5, \<lparr>cartes = [ascii ''7'' @ DIAMOND, ascii ''9'' @ SPADE], date = T1\<rparr>)]\<rparr>"
proof -
  have ne: "ascii ''7'' @ DIAMOND @ ascii '' 9'' @ SPADE \<noteq> []"
    by (simp add: ascii_def)
  have "after_msg_5 = collect_inter_data bound_predictor 5 msg_5 T1 T2"
    by (simp add: after_msg_5_def should_predict_state bound_predictor_truthy msg_5_game)
  also have "\<dots> = bound_predictor\<lparr>sequential_history :=
      [(5, \<lparr>cartes = [ascii ''7'' @ DIAMOND, ascii ''9'' @ SPADE], date = T1\<rparr>)]\<rparr>"
    by (simp add: collect_inter_data_no_king [OF msg_5_content ne msg_5_no_king] msg_5_cards
          drop_obsolete_def bound_predictor_def fresh_predictor_def)
  finally show ?thesis .
qed

lemma after_msg_5_truthy: "truthy_id (target_channel_id after_msg_5)"
  by (simp add: after_msg_5_eval bound_predictor_truthy)

lemma analyze_inter_data [simp]:
  "inter_data (fst (analyze_and_set_smart_rules st i)) = inter_data st"
  by (simp add: analyze_and_set_smart_rules_def Let_def)

lemma set_channel_id_inter_data [simp]:
  "inter_data (fst (set_channel_id st c t)) = inter_data st"
  by (simp add: set_channel_id_def save_channels_config_def Let_def)

lemma inter_default_inter_data [simp]:
  "inter_data (inter_default st) = inter_data st"
  by (simp add: inter_default_def Let_def)

lemma should_predict_cases:
  "snd (should_predict st message now1 now2) = st \<or>
   (\<exists>n. extract_game_number message = Some n \<and>
      snd (should_predict st message now1 now2) = collect_inter_data st n message now1 now2)"
  by (simp add: should_predict_def Let_def split: option.splits)

lemma reachable_distinct:
  "reachable st \<Longrightarrow> distinct (map numero_resultat (inter_data st))"
proof (induction rule: reachable.induct)
  case (start st)
  then show ?case by simp
next
  case (message st message now1 now2)
  from should_predict_cases [of st message now1 now2] show ?case
  proof
    assume "snd (should_predict st message now1 now2) = st"
    with message.IH show ?thesis by simp
  next
    assume "\<exists>n. extract_game_number message = Some n \<and>
      snd (should_predict st message now1 now2) = collect_inter_data st n message now1 now2"
    then obtain n where
      "snd (should_predict st message now1 now2) = collect_inter_data st n message now1 now2"
      by blast
    with message.IH show ?thesis
      by (simp add: collect_inter_data_distinct)
  qed
next
  case (collect st game_number message now1 now2)
  then show ?case by (simp add: collect_inter_data_distinct)
qed simp_all

lemma collect_inter_data_duplicate:
  "list_ex (\<lambda>e. numero_resultat e = G) (inter_data st) \<Longrightarrow>
   inter_data (collect_inter_data st G message now1 now2) = inter_data st"
  using collect_inter_data_log [of st G message now1 now2] by auto

lemma after_msg_7_inter_data:
  "inter_data after_msg_7 =
     [\<lparr>numero_resultat = 7, declencheur = [ascii ''7'' @ DIAMOND, ascii ''9'' @ SPADE],
       numero_declencheur = 5, carte_k = ascii ''K'' @ SPADE, date_resultat = T4\<rparr>]"
proof -
  have ne: "ascii ''K'' @ SPADE @ ascii '' 2'' @ HEART \<noteq> []"
    by (simp add: ascii_def)
  have eq: "after_msg_7 = collect_inter_data after_msg_5 7 msg_7 T3 T4"
    by (simp add: after_msg_7_def should_predict_state after_msg_5_truthy msg_7_game)
  have "inter_data (collect_inter_data after_msg_5 7 msg_7 T3 T4) =
     inter_data after_msg_5 @
     [\<lparr>numero_resultat = 7, declencheur = [ascii ''7'' @ DIAMOND, ascii ''9'' @ SPADE],
       numero_declencheur = 5, carte_k = ascii ''K'' @ SPADE, date_resultat = T4\<rparr>]"
    using ne
    by (simp add: collect_inter_data_def msg_7_content msg_7_cards msg_7_king Let_def
          after_msg_5_eval bound_predictor_def fresh_predictor_def)
  then show ?thesis
    by (simp add: eq after_msg_5_eval bound_predictor_def fresh_predictor_def)
qed

lemma after_msg_7_reachable: "reachable after_msg_7"
proof -
  have "reachable bound_predictor"
    by (rule reachable.start) (simp add: bound_predictor_def fresh_predictor_def)
  then have "reachable after_msg_5"
    unfolding after_msg_5_def by (rule reachable.message)
  then show ?thesis
    unfolding after_msg_7_def by (rule reachable.message)
qed

subsection \<open>The decision and the handler\<close>

lemma msg_50_predicted: "predicted_value st msg_50 = Some KING"
proof -
  have ne: "ascii ''10'' @ HEART @ ascii '' 3'' @ DIAMOND \<noteq> []"
    by (simp add: ascii_def)
  show ?thesis
    using ne by (simp add: predicted_value_def msg_50_content msg_50_details Let_def)
qed

lemma should_predict_msg_50:
  "truthy_id (target_channel_id st) \<Longrightarrow>
   fst (should_predict st msg_50 now1 now2) = (True, Some 50, Some KING)"
  by (simp add: should_predict_def msg_50_game msg_50_flags msg_50_predicted
        should_predict_result_def Let_def)

lemma should_predict_fires:
  "fst (fst (should_predict st message now1 now2)) \<Longrightarrow>
   \<exists>n v. extract_game_number message = Some n \<and>
     fst (should_predict st message now1 now2) = (True, Some n, Some v)"
  by (auto simp: should_predict_def should_predict_result_def Let_def
        split: option.splits if_splits)

lemma process_channel_message_fires:
  assumes "fst (fst (should_predict (after_verification c st message is_edited) message now1 now2))"
  shows "\<exists>n a. extract_game_number message = Some n \<and>
     fst (process_channel_message c st message is_edited now1 now2) = Inr (Some a) \<and>
     action_type a = ''new_prediction'' \<and> predicted_game a = n + 2"
proof -
  from should_predict_fires [OF assms] obtain n v where
    n: "extract_game_number message = Some n" and
    r: "fst (should_predict (after_verification c st message is_edited) message now1 now2) =
          (True, Some n, Some v)"
    by blast
  have ne: "message \<noteq> []"
  proof
    assume "message = []"
    then have "extract_game_number message = None"
      by (simp add: extract_game_number_def)
    with n show False by simp
  qed
  obtain st3 where sp: "should_predict (after_verification c st message is_edited) message now1 now2 =
      ((True, Some n, Some v), st3)"
    using r by (cases "should_predict (after_verification c st message is_edited) message now1 now2") simp
  show ?thesis
    using n ne sp
    by (simp add: process_channel_message_def Let_def split: prod.splits)
qed

lemma process_channel_message_action:
  assumes "fst (process_channel_message c st message is_edited now1 now2) = Inr (Some a)"
  shows "\<exists>n. extract_game_number message = Some n \<and> action_type a = ''new_prediction'' \<and>
     predicted_game a = n + 2"
proof -
  from assms have ne: "message \<noteq> []"
    by (auto simp: process_channel_message_def)
  from assms ne have fires:
    "fst (fst (should_predict (after_verification c st message is_edited) message now1 now2))"
    by (auto simp: process_channel_message_def Let_def split: prod.splits if_splits)
  from process_channel_message_fires [OF fires] assms show ?thesis
    by auto
qed

lemma quiet_after_verification: "after_verification quiet_collaborators st m e = st"
  by (simp add: after_verification_def quiet_collaborators_def)

subsection \<open>The counting dictionary and the stable sort\<close>

lemma set_first_occurrences [simp]: "set (first_occurrences xs) = set xs"
  by (induction xs) auto

lemma distinct_first_occurrences [simp]: "distinct (first_occurrences xs)"
  by (induction xs) auto

lemma first_occurrences_snoc:
  "first_occurrences (xs @ [x]) =
     (if x \<in> set xs then first_occurrences xs else first_occurrences xs @ [x])"
  by (induction xs) auto

lemma first_seen_Cons:
  "first_seen (y # xs) a = (if a = y then 0 else Suc (first_seen xs a))"
  by (simp add: first_seen_def)

lemma first_occurrences_in_order:
  "sorted_wrt (\<lambda>a b. first_seen xs a < first_seen xs b) (first_occurrences xs)"
proof (induction xs)
  case Nil
  then show ?case by simp
next
  case (Cons y xs)
  have "sorted_wrt (\<lambda>a b. first_seen xs a < first_seen xs b)
          (filter (\<lambda>z. z \<noteq> y) (first_occurrences xs))"
    using Cons.IH by (rule sorted_wrt_filter)
  then have "sorted_wrt (\<lambda>a b. first_seen (y # xs) a < first_seen (y # xs) b)
          (filter (\<lambda>z. z \<noteq> y) (first_occurrences xs))"
    by (rule sorted_wrt_mono_rel [rotated]) (auto simp: first_seen_Cons)
  then show ?case
    by (auto simp: first_seen_Cons)
qed

lemma update_counts:
  "distinct ks \<Longrightarrow>
   AList.update x v (map (\<lambda>p. (p, f p)) ks) =
     (if x \<in> set ks then map (\<lambda>p. (p, (f(x := v)) p)) ks
      else map (\<lambda>p. (p, f p)) ks @ [(x, v)])"
  by (induction ks) auto

lemma map_of_counts:
  "map_of (map (\<lambda>p. (p, f p)) ks) x = (if x \<in> set ks then Some (f x) else None)"
  by (induction ks) auto

lemma occurrences_snoc:
  "occurrences (xs @ [e]) p = occurrences xs p + (if declencheur e = p then 1 else 0)"
  by (simp add: occurrences_def)

lemma occurrences_absent:
  "p \<notin> declencheur ` set xs \<Longrightarrow> occurrences xs p = 0"
  by (auto simp: occurrences_def filter_empty_conv)

lemma count_declencheurs_snoc:
  "count_declencheurs (xs @ [e]) =
     AList.update (declencheur e)
       ((case map_of (count_declencheurs xs) (declencheur e) of None \<Rightarrow> 0 | Some c \<Rightarrow> c) + 1)
       (count_declencheurs xs)"
  by (simp add: count_declencheurs_def)

lemma count_declencheurs_eq:
  "count_declencheurs xs =
     map (\<lambda>p. (p, occurrences xs p)) (first_occurrences (map declencheur xs))"
proof (induction xs rule: rev_induct)
  case Nil
  then show ?case by (simp add: count_declencheurs_def)
next
  case (snoc e xs)
  let ?d = "declencheur e"
  show ?case
  proof (cases "?d \<in> declencheur ` set xs")
    case True
    then show ?thesis
      by (simp add: count_declencheurs_snoc snoc.IH map_of_counts update_counts
            first_occurrences_snoc occurrences_snoc)
  next
    case False
    then have other: "\<forall>x \<in> set xs. ?d \<noteq> declencheur x"
      by (metis imageI)
    from False show ?thesis
      by (simp add: count_declencheurs_snoc snoc.IH map_of_counts update_counts
            first_occurrences_snoc occurrences_snoc occurrences_absent other)
  qed
qed

lemma insort_key_map:
  "insort_key k (g x) (map g ys) = map g (insort_key (\<lambda>z. k (g z)) x ys)"
  by (induction ys) auto

lemma sort_key_map:
  "sort_key k (map g xs) = map g (sort_key (\<lambda>z. k (g z)) xs)"
  by (induction xs) (simp_all add: insort_key_map)

lemma insort_key_tie_break:
  fixes f :: "'a \<Rightarrow> int" and idx :: "'a \<Rightarrow> nat"
  assumes "\<forall>y \<in> set ys. idx x < idx y"
  shows "insort_key f x ys = insort_key (\<lambda>z. (f z, idx z)) x ys"
  using assms by (induction ys) (auto simp: less_eq_prod_def)

lemma sort_key_tie_break:
  fixes f :: "'a \<Rightarrow> int" and idx :: "'a \<Rightarrow> nat"
  assumes "sorted_wrt (\<lambda>a b. idx a < idx b) xs"
  shows "sort_key f xs = sort_key (\<lambda>z. (f z, idx z)) xs"
  using assms
proof (induction xs)
  case Nil
  then show ?case by simp
next
  case (Cons x xs)
  then have "\<forall>y \<in> set (sort_key (\<lambda>z. (f z, idx z)) xs). idx x < idx y"
    by simp
  then show ?case
    using Cons by (simp add: insort_key_tie_break)
qed

lemma sorted_declencheurs_eq:
  "py_sorted_reverse snd (count_declencheurs xs) =
     map (\<lambda>p. (p, occurrences xs p))
       (sort_key (\<lambda>p. (- occurrences xs p, first_seen (map declencheur xs) p))
          (first_occurrences (map declencheur xs)))"
  by (simp add: py_sorted_reverse_def count_declencheurs_eq sort_key_map
        sort_key_tie_break [OF first_occurrences_in_order])

lemma analyze_smart_rules:
  "smart_rules (fst (analyze_and_set_smart_rules st initial_load)) = top_3_spec (inter_data st)"
  by (simp add: analyze_and_set_smart_rules_def Let_def sorted_declencheurs_eq top_3_spec_def
        take_map o_def)


lemma occurrences_two:
  "p \<noteq> q \<Longrightarrow> occurrences xs p + occurrences xs q \<le> int (length xs)"
  by (induction xs) (auto simp: occurrences_def)

lemma occurrences_present:
  "0 < occurrences xs p \<Longrightarrow> p \<in> declencheur ` set xs"
  by (rule ccontr) (simp add: occurrences_absent)

lemma hd_sort_key_least:
  fixes k :: "'a \<Rightarrow> 'b::linorder"
  assumes x: "x \<in> set xs" and least: "\<forall>y \<in> set xs. y \<noteq> x \<longrightarrow> k x < k y"
  shows "sort_key k xs \<noteq> [] \<and> hd (sort_key k xs) = x"
proof -
  from x have "x \<in> set (sort_key k xs)" by simp
  then obtain h t where s: "sort_key k xs = h # t"
    by (cases "sort_key k xs") auto
  have "sorted (map k (h # t))"
    unfolding s [symmetric] by (rule sorted_sort_key)
  then have hmin: "\<forall>y \<in> set (h # t). k h \<le> k y"
    by auto
  have hin: "h \<in> set xs"
    using s set_sort [of k xs] by (metis list.set_intros(1))
  have xin: "x \<in> set (h # t)"
    using x s set_sort [of k xs] by metis
  have "h = x"
  proof (rule ccontr)
    assume "h \<noteq> x"
    with hin least have "k x < k h" by blast
    moreover from hmin xin have "k h \<le> k x" by blast
    ultimately show False by simp
  qed
  with s show ?thesis by simp
qed

lemma top_3_spec_length: "length (top_3_spec xs) \<le> 3"
  by (simp add: top_3_spec_def Let_def)

lemma top_3_spec_majority:
  assumes len: "length xs = 4" and occ: "occurrences xs p = 3"
  shows "top_3_spec xs \<noteq> [] \<and> hd (top_3_spec xs) = \<lparr>cards = p, count = 3\<rparr>"
proof -
  let ?pairs = "map declencheur xs"
  let ?k = "\<lambda>pair. (- occurrences xs pair, first_seen ?pairs pair)"
  let ?s = "sort_key ?k (first_occurrences ?pairs)"
  from occ have pin: "p \<in> set (first_occurrences ?pairs)"
    using occurrences_present [of xs p] by simp
  have least: "\<forall>q \<in> set (first_occurrences ?pairs). q \<noteq> p \<longrightarrow> ?k p < ?k q"
  proof (intro ballI impI)
    fix q assume "q \<noteq> p"
    then have "occurrences xs p + occurrences xs q \<le> int (length xs)"
      using occurrences_two [of p q xs] by simp
    with len occ have "occurrences xs q < occurrences xs p" by simp
    then show "?k p < ?k q" by (simp add: less_prod_def)
  qed
  from hd_sort_key_least [OF pin least] have ne: "?s \<noteq> []" and h: "hd ?s = p"
    by simp_all
  from ne have "take 3 ?s \<noteq> []" by simp
  moreover from ne have "hd (take 3 ?s) = hd ?s" by (cases ?s) simp_all
  ultimately show ?thesis
    using h occ by (simp add: top_3_spec_def Let_def hd_map)
qed

lemma sample_log_occurrences:
  "occurrences sample_log [ascii ''7'' @ DIAMOND, ascii ''9'' @ SPADE] = 3"
  "occurrences sample_log [ascii ''3'' @ CLUB, ascii ''J'' @ HEART] = 1"
  by (simp_all add: occurrences_def sample_log_def sym_defs)

lemma sample_log_top_3:
  "top_3_spec sample_log =
     [\<lparr>cards = [ascii ''7'' @ DIAMOND, ascii ''9'' @ SPADE], count = 3\<rparr>,
      \<lparr>cards = [ascii ''3'' @ CLUB, ascii ''J'' @ HEART], count = 1\<rparr>]"
proof -
  have pairs: "map declencheur sample_log =
     [[ascii ''7'' @ DIAMOND, ascii ''9'' @ SPADE], [ascii ''3'' @ CLUB, ascii ''J'' @ HEART],
      [ascii ''7'' @ DIAMOND, ascii ''9'' @ SPADE], [ascii ''7'' @ DIAMOND, ascii ''9'' @ SPADE]]"
    by (simp add: sample_log_def)
  have ne: "[ascii ''3'' @ CLUB, ascii ''J'' @ HEART] \<noteq> [ascii ''7'' @ DIAMOND, ascii ''9'' @ SPADE]"
    by (simp add: sym_defs)
  have fo: "first_occurrences (map declencheur sample_log) =
     [[ascii ''7'' @ DIAMOND, ascii ''9'' @ SPADE], [ascii ''3'' @ CLUB, ascii ''J'' @ HEART]]"
    using ne by (simp add: pairs)
  show ?thesis
    using ne by (simp add: top_3_spec_def Let_def fo sample_log_occurrences less_eq_prod_def)
qed

subsection \<open>Printing and parsing integers\<close>

lemma ascii_digit:
  "48 \<le> c \<Longrightarrow> c \<le> 57 \<Longrightarrow> is_digit c \<and> digit_value c = Some (c - 48)"
  by (simp add: is_digit_low digit_value_low)

lemma digits_of_nat_ascii: "\<forall>c \<in> set (digits_of_nat n). 48 \<le> c \<and> c \<le> 57"
proof (induction n rule: digits_of_nat.induct)
  case (1 n)
  show ?case
  proof (cases "n < 10")
    case True
    then show ?thesis
      by (subst digits_of_nat.simps) simp
  next
    case False
    have "n mod 10 < 10" by simp
    then have "48 + n mod 10 \<le> 57"
      by linarith
    with False 1 show ?thesis
      by (subst digits_of_nat.simps) auto
  qed
qed

lemma digits_of_nat_digits: "\<forall>c \<in> set (digits_of_nat n). is_digit c"
  using digits_of_nat_ascii [of n] by (auto simp: ascii_digit)

lemma digits_of_nat_nonempty: "digits_of_nat n \<noteq> []"
  by (subst digits_of_nat.simps) simp

lemma int_of_digits_snoc:
  "int_of_digits (ds @ [c]) =
     10 * int_of_digits ds + int (case digit_value c of Some v \<Rightarrow> v | None \<Rightarrow> 0)"
  by (simp add: int_of_digits_def)

lemma int_of_digits_of_nat: "int_of_digits (digits_of_nat n) = int n"
proof (induction n rule: digits_of_nat.induct)
  case (1 n)
  show ?case
  proof (cases "n < 10")
    case True
    then show ?thesis
      by (subst digits_of_nat.simps) (simp add: int_of_digits_def digit_value_low)
  next
    case False
    with 1 have "int_of_digits (digits_of_nat (n div 10)) = int (n div 10)"
      by simp
    moreover have "10 * int (n div 10) + int (n mod 10) = int n"
      by presburger
    moreover have "n mod 10 < 10"
      by simp
    then have "digit_value (48 + n mod 10) = Some (n mod 10)"
      by (simp add: digit_value_low)
    ultimately show ?thesis
      using False by (subst digits_of_nat.simps) (simp add: int_of_digits_snoc)
  qed
qed

lemma underscore_no_digit: "\<not> is_digit 95"
  by (simp add: is_digit_low)

lemma valid_int_body_digits:
  "ds \<noteq> [] \<Longrightarrow> \<forall>c \<in> set ds. is_digit c \<Longrightarrow> valid_int_body ds"
proof (induction ds rule: valid_int_body.induct)
  case 1
  then show ?case by simp
next
  case (2 c)
  then show ?case by simp
next
  case (3 c d cs)
  then have "d \<noteq> 95"
    using underscore_no_digit by auto
  with 3 show ?case by simp
qed

lemma filter_underscore_digits:
  "\<forall>c \<in> set ds. is_digit c \<Longrightarrow> filter (\<lambda>c. c \<noteq> 95) ds = ds"
  using underscore_no_digit by (induction ds) auto

lemma dropWhile_none: "\<forall>c \<in> set s. \<not> P c \<Longrightarrow> dropWhile P s = s"
  by (cases s) simp_all

lemma py_strip_no_space: "\<forall>c \<in> set s. \<not> py_isspace c \<Longrightarrow> py_strip s = s"
  by (simp add: py_strip_def dropWhile_none)

lemma digit_no_space: "48 \<le> c \<and> c \<le> 57 \<Longrightarrow> \<not> py_isspace c"
  for c :: codepoint
  by (simp add: py_isspace_def)

lemma digit_no_sign: "48 \<le> c \<and> c \<le> 57 \<Longrightarrow> c \<noteq> 45 \<and> c \<noteq> 43"
  for c :: codepoint
  by auto

lemma py_int_of_str_int: "py_int_of_str (py_str_int k) = Some k"
proof (cases "k < 0")
  case True
  let ?ds = "digits_of_nat (nat (- k))"
  have "\<not> py_isspace 45"
    by (simp add: py_isspace_def)
  then have sp: "\<forall>c \<in> set (45 # ?ds). \<not> py_isspace c"
    using digits_of_nat_ascii [of "nat (- k)"]
    by (auto simp: digit_no_space)
  have "py_strip (45 # ?ds) = 45 # ?ds"
    using sp by (rule py_strip_no_space)
  with True show ?thesis
    by (simp add: py_int_of_str_def py_str_int_def Let_def
          valid_int_body_digits digits_of_nat_nonempty digits_of_nat_digits
          filter_underscore_digits int_of_digits_of_nat)
next
  case False
  let ?ds = "digits_of_nat (nat k)"
  obtain c r where cr: "?ds = c # r"
    using digits_of_nat_nonempty [of "nat k"] by (cases ?ds) auto
  then have "48 \<le> c \<and> c \<le> 57"
    using digits_of_nat_ascii [of "nat k"] by simp
  then have sign: "c \<noteq> 45" "c \<noteq> 43"
    using digit_no_sign by auto
  have "py_strip ?ds = ?ds"
    using digits_of_nat_ascii [of "nat k"] by (intro py_strip_no_space) (auto simp: digit_no_space)
  moreover have "valid_int_body ?ds"
    by (simp add: valid_int_body_digits digits_of_nat_nonempty digits_of_nat_digits)
  moreover have "filter (\<lambda>c. c \<noteq> 95) ?ds = ?ds"
    by (simp add: filter_underscore_digits digits_of_nat_digits)
  ultimately show ?thesis
    using False sign cr int_of_digits_of_nat [of "nat k"]
    by (simp add: py_int_of_str_def py_str_int_def Let_def)
qed

lemma py_str_int_inj: "py_str_int a = py_str_int b \<Longrightarrow> a = b"
  by (metis py_int_of_str_int option.inject)

subsection \<open>Dictionaries with distinct keys\<close>

lemma update_new_key: "k \<notin> fst ` set al \<Longrightarrow> AList.update k v al = al @ [(k, v)]"
  by (induction al) auto

lemma fold_update_distinct:
  "distinct (map fst (acc @ ps)) \<Longrightarrow>
   fold (\<lambda>p d. AList.update (fst p) (snd p) d) ps acc = acc @ ps"
proof (induction ps arbitrary: acc)
  case Nil
  then show ?case by simp
next
  case (Cons p ps)
  from Cons.prems have new: "fst p \<notin> fst ` set acc"
    by auto
  from Cons.prems have "distinct (map fst ((acc @ [p]) @ ps))"
    by simp
  then have "fold (\<lambda>p d. AList.update (fst p) (snd p) d) ps (acc @ [p]) = (acc @ [p]) @ ps"
    by (rule Cons.IH)
  with new show ?case
    by (simp add: update_new_key)
qed

lemma dict_of_pairs_distinct: "distinct (map fst ps) \<Longrightarrow> dict_of_pairs ps = ps"
  using fold_update_distinct [of "[]" ps] by (simp add: dict_of_pairs_def)

lemma json_key_str: "str_key k \<Longrightarrow> json_key k = k"
  by (cases k) (simp_all add: json_key_def)

lemma json_native_ok_norm: "json_native v \<Longrightarrow> json_ok v \<and> json_norm v = v"
proof (induction v)
  case (PList xs)
  then have "\<forall>x \<in> set xs. json_ok x \<and> json_norm x = x"
    by (simp add: list_all_iff)
  then show ?case
    by (simp add: list_all_iff map_idI)
next
  case (PDict kvs)
  then have each: "\<forall>p \<in> set kvs. json_ok (snd p) \<and> json_norm (snd p) = snd p"
    by (auto simp: list_all_iff)
  from PDict.prems have keys: "\<forall>p \<in> set kvs. json_key (fst p) = fst p"
    by (simp add: list_all_iff json_key_str)
  from each keys have "map (\<lambda>p. (json_key (fst p), json_norm (snd p))) kvs = kvs"
    by (intro map_idI) simp
  moreover from PDict.prems have "distinct (map fst kvs)"
    by simp
  ultimately show ?case
    using each by (simp add: dict_of_pairs_distinct list_all_iff)
qed simp_all

subsection \<open>The records are JSON documents\<close>

lemma hashable_native: "hashable x \<Longrightarrow> json_native x"
  by (cases x) simp_all

lemma strings_native: "list_all json_native (map PStr ss)"
  by (simp add: list_all_iff)

lemma py_game_native: "json_native (py_game g)"
  by (simp add: py_game_def ascii_def strings_native)

lemma py_sample_native: "json_native (py_sample e)"
  by (simp add: py_sample_def ascii_def strings_native)

lemma py_rule_native: "json_native (py_rule r)"
  by (simp add: py_rule_def ascii_def strings_native)

lemma py_inter_data_native: "json_native (py_inter_data xs)"
  by (simp add: py_inter_data_def list_all_iff py_sample_native)

lemma py_smart_rules_native: "json_native (py_smart_rules rs)"
  by (simp add: py_smart_rules_def list_all_iff py_rule_native)

lemma py_history_ok: "json_ok (py_history h)"
  by (simp add: py_history_def list_all_iff json_native_ok_norm py_game_native)

lemma py_history_norm:
  assumes "distinct (map fst h)"
  shows "json_norm (py_history h) =
     PDict (map (\<lambda>p. (KStr (py_str_int (fst p)), py_game (snd p))) h)"
proof -
  have "distinct (map (\<lambda>p. KStr (py_str_int (fst p))) h)"
    using assms by (auto simp: distinct_map inj_on_def dest: py_str_int_inj)
  then have "distinct (map fst (map (\<lambda>p. (KStr (py_str_int (fst p)), py_game (snd p))) h))"
    by (simp add: o_def)
  then show ?thesis
    by (simp add: py_history_def o_def json_key_def json_native_ok_norm py_game_native
          dict_of_pairs_distinct)
qed

lemma int_keys_history:
  "distinct (map fst acc @ map (\<lambda>p. KInt (fst p)) h) \<Longrightarrow>
   int_keys (map (\<lambda>p. (KStr (py_str_int (fst p)), f (snd p))) h) acc =
     Inr (PDict (acc @ map (\<lambda>p. (KInt (fst p), f (snd p))) h))"
proof (induction h arbitrary: acc)
  case Nil
  then show ?case by simp
next
  case (Cons p h)
  from Cons.prems have new: "KInt (fst p) \<notin> fst ` set acc"
    by auto
  from Cons.prems have "distinct (map fst (acc @ [(KInt (fst p), f (snd p))]) @ map (\<lambda>p. KInt (fst p)) h)"
    by auto
  from Cons.IH [OF this] new show ?case
    by (simp add: py_int_of_str_int update_new_key)
qed

subsection \<open>What is in a file after a save\<close>

lemma save_data_stored:
  "on_write (files st) filename = Succeeds \<Longrightarrow> filename \<noteq> ''inter_mode_status.json'' \<Longrightarrow>
   json_ok (case data of PSet xs \<Rightarrow> PList xs | _ \<Rightarrow> data) \<Longrightarrow>
   stored (files (save_data st data filename)) filename =
     Doc (json_norm (case data of PSet xs \<Rightarrow> PList xs | _ \<Rightarrow> data))"
  by (simp add: save_data_def write_json_def Let_def)

lemma save_data_stored_mode:
  "on_write (files st) ''inter_mode_status.json'' = Succeeds \<Longrightarrow>
   stored (files (save_data st data ''inter_mode_status.json'')) ''inter_mode_status.json'' =
     Doc (PDict [(KStr (ascii ''active''), PBool (is_inter_mode_active st))])"
  by (simp add: save_data_def write_json_def Let_def dict_of_pairs_def json_key_def)

lemma load_data_doc:
  "stored d filename = Doc data \<Longrightarrow> load_body data filename is_set is_scalar = Inr v \<Longrightarrow>
   load_data d filename is_set is_scalar = (v, [])"
  by (simp add: load_data_def read_json_def)

lemma reloaded_native:
  assumes w: "on_write (files st) filename = Succeeds"
    and f: "filename \<noteq> ''inter_mode_status.json''" "filename \<noteq> ''sequential_history.json''"
    and n: "json_native data"
  shows "reloaded st data filename False False = data"
proof -
  from n have notset: "(case data of PSet xs \<Rightarrow> PList xs | _ \<Rightarrow> data) = data"
    by (cases data) simp_all
  from n have ok: "json_ok data" and norm: "json_norm data = data"
    by (simp_all add: json_native_ok_norm)
  have "stored (files (save_data st data filename)) filename = Doc data"
    using save_data_stored [OF w f(1), of data] ok norm notset by simp
  moreover have "load_body data filename False False = Inr data"
    using f by (simp add: load_body_def)
  ultimately show ?thesis
    by (simp add: reloaded_def load_data_doc)
qed

lemma reloaded_set:
  assumes w: "on_write (files st) ''processed.json'' = Succeeds"
    and h: "list_all hashable xs" and d: "py_dedupe xs = xs"
  shows "reloaded st (PSet xs) ''processed.json'' True False = PSet xs"
proof -
  from h have n: "json_native (PList xs)"
    by (simp add: list_all_iff hashable_native)
  then have "json_ok (PList xs)" and "json_norm (PList xs) = PList xs"
    by (simp_all only: json_native_ok_norm)
  then have "stored (files (save_data st (PSet xs) ''processed.json'')) ''processed.json'' =
      Doc (PList xs)"
    using save_data_stored [OF w, of "PSet xs"] by simp
  moreover have "load_body (PList xs) ''processed.json'' True False = Inr (PSet xs)"
    using h d by (simp add: load_body_def py_set_def)
  ultimately show ?thesis
    by (simp add: reloaded_def load_data_doc)
qed

lemma reloaded_history:
  assumes w: "on_write (files st) ''sequential_history.json'' = Succeeds"
    and d: "distinct (map fst h)"
  shows "reloaded st (py_history h) ''sequential_history.json'' False False = py_history h"
proof -
  have notset: "(case py_history h of PSet xs \<Rightarrow> PList xs | _ \<Rightarrow> py_history h) = py_history h"
    by (simp add: py_history_def)
  have st: "stored (files (save_data st (py_history h) ''sequential_history.json''))
      ''sequential_history.json'' =
      Doc (PDict (map (\<lambda>p. (KStr (py_str_int (fst p)), py_game (snd p))) h))"
    using save_data_stored [OF w, of "py_history h"] py_history_ok [of h] py_history_norm [OF d]
    by (simp add: notset)
  from d have "distinct (map fst [] @ map (\<lambda>p. KInt (fst p)) h)"
    by (simp add: distinct_map inj_on_def)
  from int_keys_history [OF this, of py_game]
  have "load_body (PDict (map (\<lambda>p. (KStr (py_str_int (fst p)), py_game (snd p))) h))
      ''sequential_history.json'' False False = Inr (py_history h)"
    by (simp add: load_body_def py_history_def)
  with st show ?thesis
    by (simp add: reloaded_def load_data_doc)
qed

lemma reloaded_mode:
  assumes w: "on_write (files st) ''inter_mode_status.json'' = Succeeds"
  shows "reloaded st data ''inter_mode_status.json'' False True = PBool (is_inter_mode_active st)"
proof -
  have "load_body (PDict [(KStr (ascii ''active''), PBool (is_inter_mode_active st))])
      ''inter_mode_status.json'' False True = Inr (PBool (is_inter_mode_active st))"
    by (simp add: load_body_def get_active_def)
  with save_data_stored_mode [OF w, of data] show ?thesis
    by (simp add: reloaded_def load_data_doc)
qed

lemma reloaded_time_int:
  assumes w: "on_write (files st) ''last_prediction_time.json'' = Succeeds"
  shows "reloaded st (PInt n) ''last_prediction_time.json'' False True = PInt n"
proof -
  have "stored (files (save_data st (PInt n) ''last_prediction_time.json''))
      ''last_prediction_time.json'' = Doc (PInt n)"
    using save_data_stored [OF w, of "PInt n"] by simp
  moreover have "load_body (PInt n) ''last_prediction_time.json'' False True = Inr (PInt n)"
    by (simp add: load_body_def)
  ultimately show ?thesis
    by (simp add: reloaded_def load_data_doc)
qed

lemma reloaded_time_float:
  assumes w: "on_write (files st) ''last_prediction_time.json'' = Succeeds"
  shows "reloaded st (PFloat x) ''last_prediction_time.json'' False True =
     PInt (py_int_of_float x)"
proof -
  have "stored (files (save_data st (PFloat x) ''last_prediction_time.json''))
      ''last_prediction_time.json'' = Doc (PFloat x)"
    using save_data_stored [OF w, of "PFloat x"] by simp
  moreover have "load_body (PFloat x) ''last_prediction_time.json'' False True =
      Inr (PInt (py_int_of_float x))"
    by (simp add: load_body_def)
  ultimately show ?thesis
    by (simp add: reloaded_def load_data_doc)
qed

lemma learned_predictor_writes: "on_write (files learned_predictor) filename = Succeeds"
  by (simp add: learned_predictor_def bound_predictor_def fresh_predictor_def no_files_def)

lemma sample_processed_set:
  "list_all hashable sample_processed" "py_dedupe sample_processed = sample_processed"
  by (simp_all add: sample_processed_def py_eq_def)

lemma sample_history_distinct: "distinct (map fst sample_history)"
  by (simp add: sample_history_def)

lemma sample_predictions_native: "json_native (PDict sample_predictions)"
  by (simp add: sample_predictions_def ascii_def)

subsection \<open>The handlers of load and save\<close>

lemma int_keys_error: "int_keys kvs acc = Inl e \<Longrightarrow> e = ValueError"
  by (induction kvs acc rule: int_keys.induct) (auto split: option.splits)

lemma load_body_errors:
  "load_body data filename is_set is_scalar = Inl e \<Longrightarrow>
   e \<noteq> FileNotFoundError \<and> e \<noteq> JSONDecodeError"
  by (auto simp: load_body_def py_set_def get_active_def
        split: if_splits pyval.splits option.splits dest: int_keys_error)

lemma load_data_cases:
  "load_data d filename is_set is_scalar =
     (load_default filename is_set is_scalar, [(WARNING, filename)]) \<or>
   load_data d filename is_set is_scalar = (load_fallback filename is_set, [(ERROR, filename)]) \<or>
   (\<exists>data v. stored d filename = Doc data \<and> load_body data filename is_set is_scalar = Inr v \<and>
      load_data d filename is_set is_scalar = (v, []))"
  by (auto simp: load_data_def read_json_def split: stored_file.splits sum.splits)

lemma load_data_missing:
  "stored d filename = Missing \<or> stored d filename = Garbage \<Longrightarrow>
   load_data d filename is_set is_scalar =
     (load_default filename is_set is_scalar, [(WARNING, filename)])"
  by (auto simp: load_data_def read_json_def)

lemma load_data_unreadable:
  "stored d filename = Unreadable \<Longrightarrow>
   load_data d filename is_set is_scalar = (load_fallback filename is_set, [(ERROR, filename)])"
  by (simp add: load_data_def read_json_def)

lemma load_data_body_raises:
  "stored d filename = Doc data \<Longrightarrow> load_body data filename is_set is_scalar = Inl e \<Longrightarrow>
   load_data d filename is_set is_scalar = (load_fallback filename is_set, [(ERROR, filename)])"
  using load_body_errors [of data filename is_set is_scalar e]
  by (simp add: load_data_def read_json_def)

lemma save_data_memory:
  "save_data st data filename =
     st\<lparr>files := files (save_data st data filename),
        logged := logged (save_data st data filename)\<rparr>"
  by (simp add: save_data_def Let_def split: sum.splits prod.splits)

lemma save_data_write_fails:
  "on_write (files st) filename = FailsLeaving left \<Longrightarrow>
   save_data st data filename =
     st\<lparr>files := (files st)\<lparr>stored := (stored (files st))(filename := left)\<rparr>,
        logged := logged st @ [(ERROR, filename)]\<rparr>"
  by (simp add: save_data_def write_json_def Let_def)

lemma save_data_dump_fails:
  "on_write (files st) filename = Succeeds \<Longrightarrow> filename \<noteq> ''inter_mode_status.json'' \<Longrightarrow>
   \<not> json_ok (case data of PSet xs \<Rightarrow> PList xs | _ \<Rightarrow> data) \<Longrightarrow>
   save_data st data filename =
     st\<lparr>files := (files st)\<lparr>stored := (stored (files st))(filename := Garbage)\<rparr>,
        logged := logged st @ [(ERROR, filename)]\<rparr>"
  by (simp add: save_data_def write_json_def Let_def)

section \<open>The preconditions of should_predict\<close>

text \<open>
  Claim C8. A message that contains a pending indicator (the clock or the alarm clock), and
  a message that contains neither completion indicator (the check mark, the beginner
  sign), gets the answer \<open>(False, None, None)\<close> from \<open>should_predict\<close>, whatever else
  it contains and whatever the state of the predictor is.
\<close>

theorem should_predict_blocked:
  "has_pending_indicators message \<or> \<not> has_completion_indicators message \<Longrightarrow>
   fst (should_predict st message now1 now2) = (False, None, None)"
  by (auto simp: should_predict_def Let_def split: option.splits)

theorem should_predict_blocked_witness:
  "has_pending_indicators msg_10_pending \<and>
   extract_game_number msg_10_pending = Some 10 \<and>
   fst (should_predict bound_predictor msg_10_pending T1 T2) = (False, None, None)"
  using should_predict_blocked [of msg_10_pending bound_predictor T1 T2]
  by (simp add: msg_10_pending_flag msg_10_pending_game)

text \<open>
  Claim C10. The markers \<open>#N0.\<close> and blue-circle \<open>0\<close> blue-circle give game number 0, and
  \<open>should_predict\<close> treats game number 0 as it treats a message with no game number: it
  returns \<open>(False, None, None)\<close> at once and leaves the predictor as it was, so that no
  correlation takes place.
\<close>

theorem game_number_zero_is_no_game_number:
  "extract_game_number (ascii ''#N0.'') = Some 0 \<and>
   extract_game_number (BLUE # ascii ''0'' @ [BLUE]) = Some 0 \<and>
   (extract_game_number message = Some 0 \<longrightarrow>
      should_predict st message now1 now2 = ((False, None, None), st)) \<and>
   (extract_game_number message = None \<longrightarrow>
      should_predict st message now1 now2 = ((False, None, None), st))"
  by (simp add: should_predict_def) (simp add: sym_defs tok_defs)

theorem game_number_zero_is_no_game_number_witness:
  "extract_game_number msg_0 = Some 0 \<and>
   should_predict bound_predictor msg_0 T1 T2 = ((False, None, None), bound_predictor) \<and>
   extract_game_number (ascii ''(10)'') = None \<and>
   should_predict bound_predictor (ascii ''(10)'') T1 T2 = ((False, None, None), bound_predictor)"
proof -
  have none: "extract_game_number (ascii ''(10)'') = None"
    by (simp add: sym_defs tok_defs)
  show ?thesis
    using game_number_zero_is_no_game_number [of msg_0 bound_predictor T1 T2]
      game_number_zero_is_no_game_number [of "ascii ''(10)''" bound_predictor T1 T2]
    by (simp add: msg_0_game none)
qed

text \<open>
  Claim C3, as stated: for every message with an extractable game number,
  \<open>collect_inter_data\<close> runs before any short-circuit of \<open>should_predict\<close>, also when no
  channel is bound. It does not: the test of \<open>target_channel_id\<close> comes first. With no
  channel bound, the message for game 5 leaves the predictor as it was, where
  \<open>collect_inter_data\<close> would have recorded the game.
\<close>

theorem collect_inter_data_not_first_counterexample:
  "extract_game_number msg_5 = Some 5 \<and>
   snd (should_predict fresh_predictor msg_5 T1 T2) = fresh_predictor \<and>
   sequential_history (collect_inter_data fresh_predictor 5 msg_5 T1 T2) \<noteq>
     sequential_history fresh_predictor"
  by (simp add: msg_5_game msg_5_history)
     (simp add: should_predict_def fresh_predictor_def truthy_id_def)

text \<open>
  Claim C3, amended. When a source channel is bound (\<open>target_channel_id\<close> is neither
  \<open>None\<close> nor 0) and the game number of the message is not 0, the state \<open>should_predict\<close>
  leaves is the one \<open>collect_inter_data\<close> produces: the correlator has run before the
  tests of the pending and completion indicators, so also when the message carries a
  pending indicator or lacks a completion indicator and the answer is
  \<open>(False, None, None)\<close>, and whether or not a prediction is made. When
  \<open>target_channel_id\<close> is unset, or the game number is 0 or absent, \<open>should_predict\<close>
  returns \<open>(False, None, None)\<close> before the correlator: the state is untouched.
\<close>

theorem collect_inter_data_runs_iff_bound:
  "(truthy_id (target_channel_id st) \<and> extract_game_number message = Some n \<and> n \<noteq> 0 \<longrightarrow>
      snd (should_predict st message now1 now2) = collect_inter_data st n message now1 now2 \<and>
      (has_pending_indicators message \<or> \<not> has_completion_indicators message \<longrightarrow>
         should_predict st message now1 now2 =
           ((False, None, None), collect_inter_data st n message now1 now2))) \<and>
   (\<not> truthy_id (target_channel_id st) \<or> extract_game_number message = None \<or>
    extract_game_number message = Some 0 \<longrightarrow>
      should_predict st message now1 now2 = ((False, None, None), st))"
  by (intro conjI impI)
     (simp_all add: should_predict_state should_predict_bound_blocked should_predict_unbound)

theorem collect_inter_data_runs_iff_bound_witness:
  "truthy_id (target_channel_id bound_predictor) \<and>
   extract_game_number msg_10_pending = Some 10 \<and> (10::int) \<noteq> 0 \<and>
   has_pending_indicators msg_10_pending \<and>
   should_predict bound_predictor msg_10_pending T1 T2 =
     ((False, None, None), collect_inter_data bound_predictor 10 msg_10_pending T1 T2) \<and>
   \<not> truthy_id (target_channel_id fresh_predictor) \<and>
   should_predict fresh_predictor msg_5 T1 T2 = ((False, None, None), fresh_predictor) \<and>
   extract_game_number msg_0 = Some 0 \<and>
   should_predict bound_predictor msg_0 T1 T2 = ((False, None, None), bound_predictor) \<and>
   extract_game_number (ascii ''(10)'') = None \<and>
   should_predict bound_predictor (ascii ''(10)'') T1 T2 = ((False, None, None), bound_predictor)"
proof -
  have a: "should_predict bound_predictor msg_10_pending T1 T2 =
     ((False, None, None), collect_inter_data bound_predictor 10 msg_10_pending T1 T2)"
    using collect_inter_data_runs_iff_bound [of bound_predictor msg_10_pending 10 T1 T2]
      bound_predictor_truthy msg_10_pending_game msg_10_pending_flag
    by simp
  have b: "should_predict fresh_predictor msg_5 T1 T2 = ((False, None, None), fresh_predictor)"
    using collect_inter_data_runs_iff_bound [of fresh_predictor msg_5 5 T1 T2]
      fresh_predictor_unbound
    by simp
  have c: "should_predict bound_predictor msg_0 T1 T2 = ((False, None, None), bound_predictor)"
    using collect_inter_data_runs_iff_bound [of bound_predictor msg_0 0 T1 T2] msg_0_game
    by simp
  have d: "should_predict bound_predictor (ascii ''(10)'') T1 T2 =
     ((False, None, None), bound_predictor)"
    using collect_inter_data_runs_iff_bound [of bound_predictor "ascii ''(10)''" 0 T1 T2]
      no_marker_game
    by simp
  from a b c d show ?thesis
    by (simp add: bound_predictor_truthy msg_10_pending_game msg_10_pending_flag
          fresh_predictor_unbound msg_0_game no_marker_game)
qed

section \<open>The window of recent games\<close>

text \<open>
  Claim C2, as stated: once a record is written for game N, a later message for game N
  with a lead pair leaves it unchanged, and the same message processed again leaves cards
  and timestamp unchanged. The source assigns \<open>sequential_history[game_number]\<close> with
  no test of what is there. After the message of game 5 with the pair seven of diamonds,
  nine of spades, an edited message of game 5 replaces the cards, and the same message
  processed again replaces the timestamp.
\<close>

theorem game_record_overwritten_counterexample:
  "map_of (sequential_history after_msg_5) 5 =
     Some \<lparr>cartes = [ascii ''7'' @ DIAMOND, ascii ''9'' @ SPADE], date = T1\<rparr> \<and>
   extract_game_number msg_5_edited = Some 5 \<and>
   map_of (sequential_history (snd (should_predict after_msg_5 msg_5_edited T3 T4))) 5 =
     Some \<lparr>cartes = [ascii ''8'' @ DIAMOND, ascii ''9'' @ SPADE], date = T3\<rparr> \<and>
   extract_game_number msg_5 = Some 5 \<and>
   map_of (sequential_history (snd (should_predict after_msg_5 msg_5 T3 T4))) 5 =
     Some \<lparr>cartes = [ascii ''7'' @ DIAMOND, ascii ''9'' @ SPADE], date = T3\<rparr> \<and>
   T1 \<noteq> T3"
proof -
  have ne7: "ascii ''7'' @ DIAMOND @ ascii '' 9'' @ SPADE \<noteq> []"
    and ne8: "ascii ''8'' @ DIAMOND @ ascii '' 9'' @ SPADE \<noteq> []"
    by (simp_all add: ascii_def)
  have a: "map_of (sequential_history after_msg_5) 5 =
     Some \<lparr>cartes = [ascii ''7'' @ DIAMOND, ascii ''9'' @ SPADE], date = T1\<rparr>"
    by (simp add: after_msg_5_eval)
  have b: "map_of (sequential_history (snd (should_predict after_msg_5 msg_5_edited T3 T4))) 5 =
     Some \<lparr>cartes = [ascii ''8'' @ DIAMOND, ascii ''9'' @ SPADE], date = T3\<rparr>"
    using collect_inter_data_record [OF msg_5_edited_content ne8, of after_msg_5 5 T3 T4]
    by (simp add: should_predict_state after_msg_5_truthy msg_5_edited_game msg_5_edited_cards)
  have c: "map_of (sequential_history (snd (should_predict after_msg_5 msg_5 T3 T4))) 5 =
     Some \<lparr>cartes = [ascii ''7'' @ DIAMOND, ascii ''9'' @ SPADE], date = T3\<rparr>"
    using collect_inter_data_record [OF msg_5_content ne7, of after_msg_5 5 T3 T4]
    by (simp add: should_predict_state after_msg_5_truthy msg_5_game msg_5_cards)
  from a b c show ?thesis
    by (simp add: msg_5_edited_game msg_5_game times_differ)
qed

text \<open>
  Claim C2, amended. A message with game number N whose first group holds at least two
  cards writes the record of N anew: after \<open>collect_inter_data\<close> the record of N holds
  the lead pair of this message and the time of this processing, whatever was recorded
  before. Processing the same message again therefore keeps the cards and replaces the
  timestamp.
\<close>

theorem game_record_rewritten:
  "extract_first_parentheses_content message = Some first_group \<Longrightarrow> first_group \<noteq> [] \<Longrightarrow>
   length (get_first_two_cards first_group) = 2 \<Longrightarrow>
   map_of (sequential_history (collect_inter_data st n message now1 now2)) n =
     Some \<lparr>cartes = get_first_two_cards first_group, date = now1\<rparr>"
  by (rule collect_inter_data_record)

theorem game_record_rewritten_witness:
  "extract_first_parentheses_content msg_5_edited = Some (ascii ''8'' @ DIAMOND @ ascii '' 9'' @ SPADE) \<and>
   ascii ''8'' @ DIAMOND @ ascii '' 9'' @ SPADE \<noteq> [] \<and>
   length (get_first_two_cards (ascii ''8'' @ DIAMOND @ ascii '' 9'' @ SPADE)) = 2 \<and>
   map_of (sequential_history (collect_inter_data after_msg_5 5 msg_5_edited T3 T4)) 5 =
     Some \<lparr>cartes = [ascii ''8'' @ DIAMOND, ascii ''9'' @ SPADE], date = T3\<rparr>"
proof -
  have ne8: "ascii ''8'' @ DIAMOND @ ascii '' 9'' @ SPADE \<noteq> []"
    by (simp add: ascii_def)
  show ?thesis
    using game_record_rewritten [OF msg_5_edited_content ne8, of after_msg_5 5 T3 T4] ne8
    by (simp add: msg_5_edited_content msg_5_edited_cards)
qed

text \<open>
  Claim C5, as stated: after \<open>collect_inter_data\<close> has processed any message of game
  G, no record is older than G - 50. The function returns before its clean-up when the
  message has no first group (and when the sample would be a duplicate): the message of
  game 100 without parentheses leaves the record of game 5 in place.
\<close>

theorem obsolete_games_kept_counterexample:
  "extract_game_number msg_100_bare = Some 100 \<and>
   snd (should_predict after_msg_5 msg_100_bare T3 T4) = after_msg_5 \<and>
   map_of (sequential_history after_msg_5) 5 =
     Some \<lparr>cartes = [ascii ''7'' @ DIAMOND, ascii ''9'' @ SPADE], date = T1\<rparr> \<and>
   (5::int) < 100 - 50"
  by (simp add: msg_100_bare_game should_predict_state after_msg_5_truthy
        collect_inter_data_def msg_100_bare_content)
     (simp add: after_msg_5_eval)

text \<open>
  Claim C5, amended. After \<open>collect_inter_data\<close> has processed a message of game G
  whose first group of parentheses is not empty, and which is not stopped by the
  duplicate check (no king in the first group, or no record of game G - 2, or no sample
  of outcome G yet), no record of \<open>sequential_history\<close> has a game number below G - 50:
  a record of game K is gone from the look-ups once such a message of a game beyond K + 50
  has been processed.
\<close>

theorem obsolete_games_dropped:
  "extract_first_parentheses_content message = Some first_group \<Longrightarrow> first_group \<noteq> [] \<Longrightarrow>
   check_value_K_in_first_parentheses message = None \<or>
   map_of (sequential_history st) (G - 2) = None \<or>
   \<not> list_ex (\<lambda>entry. numero_resultat entry = G) (inter_data st) \<Longrightarrow>
   K < G - 50 \<Longrightarrow>
   K \<notin> fst ` set (sequential_history (collect_inter_data st G message now1 now2))"
  by (auto simp add: collect_inter_data_def Let_def update_conv' split: option.splits)

theorem obsolete_games_dropped_witness:
  "extract_first_parentheses_content msg_100 = Some (ascii ''K'' @ SPADE @ ascii '' 5'' @ HEART) \<and>
   ascii ''K'' @ SPADE @ ascii '' 5'' @ HEART \<noteq> [] \<and>
   map_of (sequential_history after_msg_5) (100 - 2) = None \<and>
   (5::int) < 100 - 50 \<and>
   map_of (sequential_history after_msg_5) 5 \<noteq> None \<and>
   5 \<notin> fst ` set (sequential_history (collect_inter_data after_msg_5 100 msg_100 T3 T4))"
proof -
  have ne: "ascii ''K'' @ SPADE @ ascii '' 5'' @ HEART \<noteq> []"
    by (simp add: ascii_def)
  have none: "map_of (sequential_history after_msg_5) (100 - 2) = None"
    by (simp add: after_msg_5_eval)
  have old: "(5::int) < 100 - 50"
    by simp
  show ?thesis
    using obsolete_games_dropped [OF msg_100_content ne disjI2 [OF disjI1 [OF none]] old, of T3 T4]
      ne none
    by (simp add: msg_100_content after_msg_5_eval)
qed

section \<open>The trigger log\<close>

text \<open>
  Claim C4. In every state the predictor reaches from an empty trigger log, no two
  samples of \<open>inter_data\<close> have the same outcome game \<open>numero_resultat\<close>; and when
  the game number of a message is already the outcome game of a sample, processing the
  message (by \<open>should_predict\<close>, or by \<open>collect_inter_data\<close> itself) adds no sample.
\<close>

theorem outcome_games_unique:
  "reachable st \<Longrightarrow>
   distinct (map numero_resultat (inter_data st)) \<and>
   (extract_game_number message = Some G \<and>
    list_ex (\<lambda>e. numero_resultat e = G) (inter_data st) \<longrightarrow>
      inter_data (snd (should_predict st message now1 now2)) = inter_data st \<and>
      inter_data (collect_inter_data st G message now1 now2) = inter_data st)"
proof (intro conjI impI)
  assume "reachable st"
  then show "distinct (map numero_resultat (inter_data st))"
    by (rule reachable_distinct)
next
  assume h: "extract_game_number message = Some G \<and>
    list_ex (\<lambda>e. numero_resultat e = G) (inter_data st)"
  then show "inter_data (collect_inter_data st G message now1 now2) = inter_data st"
    by (simp add: collect_inter_data_duplicate)
  from should_predict_cases [of st message now1 now2] h
  show "inter_data (snd (should_predict st message now1 now2)) = inter_data st"
    by (auto simp: collect_inter_data_duplicate)
qed

theorem outcome_games_unique_witness:
  "reachable after_msg_7 \<and>
   length (inter_data after_msg_7) = 1 \<and>
   distinct (map numero_resultat (inter_data after_msg_7)) \<and>
   extract_game_number msg_7 = Some 7 \<and>
   list_ex (\<lambda>e. numero_resultat e = 7) (inter_data after_msg_7) \<and>
   inter_data (snd (should_predict after_msg_7 msg_7 T5 T6)) = inter_data after_msg_7 \<and>
   inter_data (collect_inter_data after_msg_7 7 msg_7 T5 T6) = inter_data after_msg_7"
proof -
  have dup: "list_ex (\<lambda>e. numero_resultat e = 7) (inter_data after_msg_7)"
    by (simp add: after_msg_7_inter_data)
  show ?thesis
    using outcome_games_unique [OF after_msg_7_reachable, of msg_7 7 T5 T6] dup
    by (simp add: after_msg_7_reachable msg_7_game) (simp add: after_msg_7_inter_data)
qed

section \<open>The target of a prediction\<close>

text \<open>
  Claim C6. The message of game 50 with the ten of hearts and the check mark makes
  \<open>should_predict\<close> answer with a prediction of the king for game number 50, in any
  state with a source channel bound, and the handler then emits a new-prediction action
  for game 52. In general, whenever \<open>should_predict\<close> fires in the handler for a message
  of game number n, the handler emits a new-prediction action whose target is n + 2, and
  every new-prediction action the handler emits has that target.
\<close>

theorem prediction_targets_two_games_ahead:
  "(truthy_id (target_channel_id st) \<longrightarrow>
      fst (should_predict st msg_50 now1 now2) = (True, Some 50, Some KING)) \<and>
   (truthy_id (target_channel_id (after_verification c st msg_50 is_edited)) \<longrightarrow>
      (\<exists>a. fst (process_channel_message c st msg_50 is_edited now1 now2) = Inr (Some a) \<and>
           action_type a = ''new_prediction'' \<and> predicted_game a = 52)) \<and>
   (fst (fst (should_predict (after_verification c st message is_edited) message now1 now2)) \<longrightarrow>
      (\<exists>n a. extract_game_number message = Some n \<and>
         fst (process_channel_message c st message is_edited now1 now2) = Inr (Some a) \<and>
         action_type a = ''new_prediction'' \<and> predicted_game a = n + 2)) \<and>
   (fst (process_channel_message c st message is_edited now1 now2) = Inr (Some a) \<longrightarrow>
      (\<exists>n. extract_game_number message = Some n \<and> predicted_game a = n + 2))"
proof (intro conjI impI)
  assume "truthy_id (target_channel_id st)"
  then show "fst (should_predict st msg_50 now1 now2) = (True, Some 50, Some KING)"
    by (rule should_predict_msg_50)
next
  assume t: "truthy_id (target_channel_id (after_verification c st msg_50 is_edited))"
  have "fst (fst (should_predict (after_verification c st msg_50 is_edited) msg_50 now1 now2))"
    by (simp add: should_predict_msg_50 [OF t])
  from process_channel_message_fires [OF this]
  show "\<exists>a. fst (process_channel_message c st msg_50 is_edited now1 now2) = Inr (Some a) \<and>
           action_type a = ''new_prediction'' \<and> predicted_game a = 52"
    by (auto simp: msg_50_game)
next
  assume "fst (fst (should_predict (after_verification c st message is_edited) message now1 now2))"
  then show "\<exists>n a. extract_game_number message = Some n \<and>
         fst (process_channel_message c st message is_edited now1 now2) = Inr (Some a) \<and>
         action_type a = ''new_prediction'' \<and> predicted_game a = n + 2"
    by (rule process_channel_message_fires)
next
  assume "fst (process_channel_message c st message is_edited now1 now2) = Inr (Some a)"
  from process_channel_message_action [OF this]
  show "\<exists>n. extract_game_number message = Some n \<and> predicted_game a = n + 2"
    by blast
qed

theorem prediction_targets_two_games_ahead_witness:
  "truthy_id (target_channel_id bound_predictor) \<and>
   truthy_id (target_channel_id (after_verification quiet_collaborators bound_predictor msg_50 False)) \<and>
   fst (should_predict bound_predictor msg_50 T1 T2) = (True, Some 50, Some KING) \<and>
   fst (fst (should_predict (after_verification quiet_collaborators bound_predictor msg_50 False)
     msg_50 T1 T2)) \<and>
   fst (process_channel_message quiet_collaborators bound_predictor msg_50 False T1 T2) =
     Inr (Some \<lparr>action_type = ''new_prediction'', predicted_game = 52,
                 new_message = ascii ''prediction''\<rparr>) \<and>
   extract_game_number msg_50 = Some 50"
proof -
  have act: "fst (process_channel_message quiet_collaborators bound_predictor msg_50 False T1 T2) =
     Inr (Some \<lparr>action_type = ''new_prediction'', predicted_game = 52,
                 new_message = ascii ''prediction''\<rparr>)"
  proof -
    obtain st3 where sp: "should_predict bound_predictor msg_50 T1 T2 =
        ((True, Some 50, Some KING), st3)"
      using should_predict_msg_50 [OF bound_predictor_truthy, of T1 T2]
      by (cases "should_predict bound_predictor msg_50 T1 T2") simp
    have ne: "msg_50 \<noteq> []"
      by (simp add: msg_50_def ascii_def)
    show ?thesis
      using ne sp
      by (simp add: process_channel_message_def quiet_after_verification Let_def)
         (simp add: quiet_collaborators_def)
  qed
  show ?thesis
    using prediction_targets_two_games_ahead
      [of bound_predictor T1 T2 quiet_collaborators False msg_50
          "\<lparr>action_type = ''new_prediction'', predicted_game = 52,
            new_message = ascii ''prediction''\<rparr>"]
    by (simp add: bound_predictor_truthy quiet_after_verification act msg_50_game)
qed

section \<open>The learned rules\<close>

text \<open>
  Claim C7. \<open>analyze_and_set_smart_rules\<close> replaces \<open>smart_rules\<close> by the ranking the
  spec describes, whatever the rules were before: the distinct trigger pairs of
  \<open>inter_data\<close> with their occurrence counts, ordered by count descending and, among
  equal counts, by first appearance in the log, cut after the third. There are at most
  three rules. In particular, when the log has four samples and three of them share one
  trigger pair, that pair is the first rule, with count 3.
\<close>

theorem smart_rules_are_top_three:
  "smart_rules (fst (analyze_and_set_smart_rules st initial_load)) = top_3_spec (inter_data st) \<and>
   length (smart_rules (fst (analyze_and_set_smart_rules st initial_load))) \<le> 3 \<and>
   (length (inter_data st) = 4 \<and> occurrences (inter_data st) pair = 3 \<longrightarrow>
      smart_rules (fst (analyze_and_set_smart_rules st initial_load)) \<noteq> [] \<and>
      hd (smart_rules (fst (analyze_and_set_smart_rules st initial_load))) =
        \<lparr>cards = pair, count = 3\<rparr>)"
proof (intro conjI impI)
  show "smart_rules (fst (analyze_and_set_smart_rules st initial_load)) = top_3_spec (inter_data st)"
    by (rule analyze_smart_rules)
  show "length (smart_rules (fst (analyze_and_set_smart_rules st initial_load))) \<le> 3"
    by (simp add: analyze_smart_rules top_3_spec_length)
next
  assume h: "length (inter_data st) = 4 \<and> occurrences (inter_data st) pair = 3"
  then have m: "top_3_spec (inter_data st) \<noteq> [] \<and>
      hd (top_3_spec (inter_data st)) = \<lparr>cards = pair, count = 3\<rparr>"
    using top_3_spec_majority [of "inter_data st" pair] by blast
  from m show "smart_rules (fst (analyze_and_set_smart_rules st initial_load)) \<noteq> []"
    by (simp add: analyze_smart_rules)
  from m show "hd (smart_rules (fst (analyze_and_set_smart_rules st initial_load))) =
        \<lparr>cards = pair, count = 3\<rparr>"
    by (simp add: analyze_smart_rules)
qed

theorem smart_rules_are_top_three_witness:
  "length (inter_data learned_predictor) = 4 \<and>
   occurrences (inter_data learned_predictor) [ascii ''7'' @ DIAMOND, ascii ''9'' @ SPADE] = 3 \<and>
   smart_rules (fst (analyze_and_set_smart_rules learned_predictor False)) =
     [\<lparr>cards = [ascii ''7'' @ DIAMOND, ascii ''9'' @ SPADE], count = 3\<rparr>,
      \<lparr>cards = [ascii ''3'' @ CLUB, ascii ''J'' @ HEART], count = 1\<rparr>] \<and>
   hd (smart_rules (fst (analyze_and_set_smart_rules learned_predictor False))) =
     \<lparr>cards = [ascii ''7'' @ DIAMOND, ascii ''9'' @ SPADE], count = 3\<rparr>"
proof -
  have log: "inter_data learned_predictor = sample_log"
    by (simp add: learned_predictor_def)
  have len: "length sample_log = 4"
    by (simp add: sample_log_def)
  show ?thesis
    using smart_rules_are_top_three
      [of learned_predictor False "[ascii ''7'' @ DIAMOND, ascii ''9'' @ SPADE]"]
    by (simp add: log len sample_log_occurrences sample_log_top_3)
qed

section \<open>Persistence\<close>

text \<open>
  Claim C1, as stated: for every persisted aggregate, the value loaded after a save equals
  the value saved. For the last-prediction timestamp it does not: \<open>_load_data\<close> converts
  a scalar that is a number with \<open>int\<close>, so the float 1700000000.5, written as it is,
  comes back as the integer 1700000000, which is not equal to it in Python either.
\<close>

theorem timestamp_truncated_counterexample:
  "on_write (files fresh_predictor) ''last_prediction_time.json'' = Succeeds \<and>
   reloaded fresh_predictor (PFloat (3400000001 / 2)) ''last_prediction_time.json'' False True =
     PInt 1700000000 \<and>
   \<not> py_eq (PInt 1700000000) (PFloat (3400000001 / 2))"
proof -
  have w: "on_write (files fresh_predictor) ''last_prediction_time.json'' = Succeeds"
    by (simp add: fresh_predictor_def no_files_def)
  have "\<lfloor>3400000001 / 2 :: rat\<rfloor> = 1700000000"
    by (simp add: floor_eq_iff)
  then have "py_int_of_float (3400000001 / 2) = 1700000000"
    by (simp add: py_int_of_float_def)
  with reloaded_time_float [OF w, of "3400000001 / 2"] w show ?thesis
    by (simp add: py_eq_def)
qed

text \<open>
  Claim C1, amended. When the write succeeds, saving with \<open>_save_data\<close> and loading
  with \<open>_load_data\<close> (with the flags \<open>__init__\<close> uses for the file) gives back the value
  saved for: the set of processed messages (a set of hashable scalars); the trigger log
  \<open>inter_data\<close>; the window \<open>sequential_history\<close> (integer keys, each once); the
  learned-mode flag; the smart rules; a predictions dictionary whose keys are strings;
  and an integer timestamp. A float timestamp comes back as its truncation to an integer.
\<close>

theorem save_then_load:
  "(on_write (files st) ''processed.json'' = Succeeds \<and> list_all hashable xs \<and>
      py_dedupe xs = xs \<longrightarrow>
      reloaded st (PSet xs) ''processed.json'' True False = PSet xs) \<and>
   (on_write (files st) ''inter_data.json'' = Succeeds \<longrightarrow>
      reloaded st (py_inter_data samples) ''inter_data.json'' False False =
        py_inter_data samples) \<and>
   (on_write (files st) ''sequential_history.json'' = Succeeds \<and> distinct (map fst history) \<longrightarrow>
      reloaded st (py_history history) ''sequential_history.json'' False False =
        py_history history) \<and>
   (on_write (files st) ''inter_mode_status.json'' = Succeeds \<longrightarrow>
      reloaded st (PBool (is_inter_mode_active st)) ''inter_mode_status.json'' False True =
        PBool (is_inter_mode_active st)) \<and>
   (on_write (files st) ''smart_rules.json'' = Succeeds \<longrightarrow>
      reloaded st (py_smart_rules rules) ''smart_rules.json'' False False =
        py_smart_rules rules) \<and>
   (on_write (files st) ''predictions.json'' = Succeeds \<and> json_native (PDict preds) \<longrightarrow>
      reloaded st (PDict preds) ''predictions.json'' False False = PDict preds) \<and>
   (on_write (files st) ''last_prediction_time.json'' = Succeeds \<longrightarrow>
      reloaded st (PInt n) ''last_prediction_time.json'' False True = PInt n \<and>
      reloaded st (PFloat x) ''last_prediction_time.json'' False True =
        PInt (py_int_of_float x))"
  by (intro conjI impI)
     (simp_all add: reloaded_set reloaded_native py_inter_data_native py_smart_rules_native
        reloaded_history reloaded_mode reloaded_time_int reloaded_time_float)

theorem save_then_load_witness:
  "on_write (files learned_predictor) ''processed.json'' = Succeeds \<and>
   list_all hashable sample_processed \<and> py_dedupe sample_processed = sample_processed \<and>
   reloaded learned_predictor (PSet sample_processed) ''processed.json'' True False =
     PSet sample_processed \<and>
   on_write (files learned_predictor) ''inter_data.json'' = Succeeds \<and>
   reloaded learned_predictor (py_inter_data sample_log) ''inter_data.json'' False False =
     py_inter_data sample_log \<and>
   on_write (files learned_predictor) ''sequential_history.json'' = Succeeds \<and>
   distinct (map fst sample_history) \<and>
   reloaded learned_predictor (py_history sample_history) ''sequential_history.json'' False False =
     py_history sample_history \<and>
   on_write (files learned_predictor) ''inter_mode_status.json'' = Succeeds \<and>
   reloaded learned_predictor (PBool (is_inter_mode_active learned_predictor))
     ''inter_mode_status.json'' False True = PBool (is_inter_mode_active learned_predictor) \<and>
   on_write (files learned_predictor) ''smart_rules.json'' = Succeeds \<and>
   reloaded learned_predictor (py_smart_rules (top_3_spec sample_log)) ''smart_rules.json''
     False False = py_smart_rules (top_3_spec sample_log) \<and>
   on_write (files learned_predictor) ''predictions.json'' = Succeeds \<and>
   json_native (PDict sample_predictions) \<and>
   reloaded learned_predictor (PDict sample_predictions) ''predictions.json'' False False =
     PDict sample_predictions \<and>
   on_write (files learned_predictor) ''last_prediction_time.json'' = Succeeds \<and>
   reloaded learned_predictor (PInt 1700000000) ''last_prediction_time.json'' False True =
     PInt 1700000000 \<and>
   reloaded learned_predictor (PFloat (3400000001 / 2)) ''last_prediction_time.json'' False True =
     PInt (py_int_of_float (3400000001 / 2))"
  using save_then_load [of learned_predictor sample_processed sample_log sample_history
      "top_3_spec sample_log" sample_predictions 1700000000 "3400000001 / 2"]
  by (simp add: learned_predictor_writes sample_processed_set sample_history_distinct
        sample_predictions_native del: json_native.simps)

text \<open>
  What does hold of the two functions. \<open>_load_data\<close> never raises: every exception of
  its body ends in a handler that returns. For a missing file and for an empty or
  malformed one (what \<open>json.load\<close> rejects) it logs a warning and returns the default of
  the aggregate: the empty set, the empty list, the empty dictionary, 0.0 or \<open>False\<close>.
  For any other exception it logs an error and returns the value of the last handler.
  \<open>_save_data\<close> never raises either: whether the write fails at \<open>open\<close> or in
  \<open>json.dump\<close>, the error is logged and the call returns, and in every case no attribute
  of the predictor has changed, only the files and the log.
\<close>

lemma load_data_save_data_handlers:
  "(stored d filename = Missing \<or> stored d filename = Garbage \<longrightarrow>
      load_data d filename is_set is_scalar =
        (load_default filename is_set is_scalar, [(WARNING, filename)])) \<and>
   load_default ''processed.json'' True False = PSet [] \<and>
   load_default ''predictions.json'' False False = PDict [] \<and>
   load_default ''channels_config.json'' False False = PDict [] \<and>
   load_default ''sequential_history.json'' False False = PDict [] \<and>
   load_default ''inter_data.json'' False False = PList [] \<and>
   load_default ''smart_rules.json'' False False = PList [] \<and>
   load_default ''last_prediction_time.json'' False True = PFloat 0 \<and>
   load_default ''inter_mode_status.json'' False True = PBool False \<and>
   (stored d filename = Unreadable \<or>
    (\<exists>data e. stored d filename = Doc data \<and> load_body data filename is_set is_scalar = Inl e) \<longrightarrow>
      load_data d filename is_set is_scalar =
        (load_fallback filename is_set, [(ERROR, filename)])) \<and>
   (load_data d filename is_set is_scalar =
      (load_default filename is_set is_scalar, [(WARNING, filename)]) \<or>
    load_data d filename is_set is_scalar =
      (load_fallback filename is_set, [(ERROR, filename)]) \<or>
    (\<exists>data v. stored d filename = Doc data \<and>
       load_body data filename is_set is_scalar = Inr v \<and>
       load_data d filename is_set is_scalar = (v, []))) \<and>
   save_data st data filename =
     st\<lparr>files := files (save_data st data filename),
        logged := logged (save_data st data filename)\<rparr> \<and>
   (on_write (files st) filename = FailsLeaving left \<longrightarrow>
      save_data st data filename =
        st\<lparr>files := (files st)\<lparr>stored := (stored (files st))(filename := left)\<rparr>,
           logged := logged st @ [(ERROR, filename)]\<rparr>) \<and>
   (on_write (files st) filename = Succeeds \<and> filename \<noteq> ''inter_mode_status.json'' \<and>
    \<not> json_ok (case data of PSet xs \<Rightarrow> PList xs | _ \<Rightarrow> data) \<longrightarrow>
      save_data st data filename =
        st\<lparr>files := (files st)\<lparr>stored := (stored (files st))(filename := Garbage)\<rparr>,
           logged := logged st @ [(ERROR, filename)]\<rparr>)"
proof (intro conjI impI)
  assume "stored d filename = Missing \<or> stored d filename = Garbage"
  then show "load_data d filename is_set is_scalar =
        (load_default filename is_set is_scalar, [(WARNING, filename)])"
    by (rule load_data_missing)
next
  assume "stored d filename = Unreadable \<or>
    (\<exists>data e. stored d filename = Doc data \<and> load_body data filename is_set is_scalar = Inl e)"
  then show "load_data d filename is_set is_scalar =
        (load_fallback filename is_set, [(ERROR, filename)])"
    by (auto simp: load_data_unreadable load_data_body_raises)
next
  show "load_data d filename is_set is_scalar =
      (load_default filename is_set is_scalar, [(WARNING, filename)]) \<or>
    load_data d filename is_set is_scalar =
      (load_fallback filename is_set, [(ERROR, filename)]) \<or>
    (\<exists>data v. stored d filename = Doc data \<and>
       load_body data filename is_set is_scalar = Inr v \<and>
       load_data d filename is_set is_scalar = (v, []))"
    by (rule load_data_cases)
next
  show "save_data st data filename =
     st\<lparr>files := files (save_data st data filename),
        logged := logged (save_data st data filename)\<rparr>"
    by (rule save_data_memory)
next
  assume "on_write (files st) filename = FailsLeaving left"
  then show "save_data st data filename =
        st\<lparr>files := (files st)\<lparr>stored := (stored (files st))(filename := left)\<rparr>,
           logged := logged st @ [(ERROR, filename)]\<rparr>"
    by (rule save_data_write_fails)
next
  assume "on_write (files st) filename = Succeeds \<and> filename \<noteq> ''inter_mode_status.json'' \<and>
    \<not> json_ok (case data of PSet xs \<Rightarrow> PList xs | _ \<Rightarrow> data)"
  then show "save_data st data filename =
        st\<lparr>files := (files st)\<lparr>stored := (stored (files st))(filename := Garbage)\<rparr>,
           logged := logged st @ [(ERROR, filename)]\<rparr>"
    by (simp add: save_data_dump_fails)
qed (simp_all add: load_default_def)

text \<open>
  Claim C9: \<open>_load_data\<close> never raises and returns, for a missing, empty or corrupt
  file, the documented default of the aggregate after logging; \<open>_save_data\<close> swallows
  every write failure. The code misses the default in its last handler: for a file that
  cannot be read as text, \<open>_load_data\<close> logs an error and returns the empty dictionary
  for \<open>smart_rules.json\<close> and for \<open>last_prediction_time.json\<close>, where the documented
  defaults, those of the first handler, are the empty list and 0.0.
\<close>

theorem load_data_last_handler_misses_defaults:
  "stored odd_files ''smart_rules.json'' = Unreadable \<and>
   load_data odd_files ''smart_rules.json'' False False =
     (PDict [], [(ERROR, ''smart_rules.json'')]) \<and>
   load_default ''smart_rules.json'' False False = PList [] \<and>
   stored odd_files ''last_prediction_time.json'' = Unreadable \<and>
   load_data odd_files ''last_prediction_time.json'' False True =
     (PDict [], [(ERROR, ''last_prediction_time.json'')]) \<and>
   load_default ''last_prediction_time.json'' False True = PFloat 0"
  by (simp add: odd_files_def load_data_unreadable load_fallback_def load_default_def)

end
